theory Spec2Isabelle
  imports Main
begin

section \<open>Data model of webjadok.py\<close>

text \<open>
  Card and Player objects are mutable and shared by reference: the same Card object can
  sit in several lists at once. Cards therefore live in a store indexed by a reference,
  and every zone is a list of references. Python compares Card objects by identity (the
  class defines no \<^verbatim>\<open>__eq__\<close>), so \<^verbatim>\<open>card in zone\<close> is membership of the
  reference and \<^verbatim>\<open>zone.remove(card)\<close> deletes its first occurrence.
\<close>

type_synonym card_ref = nat

text \<open>The two Player objects of \<^verbatim>\<open>GameState.players\<close>, in list order.\<close>

datatype player_id = Player1 | Player2

record card =
  name :: string
  character_class :: string
  damage_bonus :: int
  attack_type :: string
  special_ability_trigger :: bool
  attack_value :: int
  action_point :: int
  initial_action_point :: int
  damage_points :: int
  sub_class :: string
  cast_ability :: string
  special_ability :: string
  is_a_character :: bool
  is_face_down :: bool
  is_wall_card :: bool
  invulnerable_to_magic_ranged :: bool
  has_attacked :: bool
  player :: "player_id option"

record player_zones =
  player_name :: string
  hand :: "card_ref list"
  wall :: "card_ref list"
  battlement_zone :: "card_ref list"
  field_zone :: "card_ref list"
  discard_pile :: "card_ref list"

text \<open>
  The lines the program prints that a property below observes. The text of a line is not
  modelled, only which message it is and which objects it is about.
\<close>

datatype event =
    IsDestroyed card_ref
  | Discards player_id card_ref
  | ErrorNotInHand player_id card_ref
  | PlacesInWall player_id
  | WallFull
  | PlacesToASP player_id card_ref
  | PlacesToken player_id
  | ResolvingFromASP player_id card_ref
  | NoActionPointsLeft card_ref
  | NoAvailableTargets
  | NoValidTarget
  | NoRangedCharacters
  | InsufficientSource

record game_state =
  cards :: "card_ref \<Rightarrow> card"
  players :: "player_id \<Rightarrow> player_zones"
  decks :: "string \<rightharpoonup> card_ref list"
  stdout :: "event list"

datatype error = AttributeError | EOFError | KeyError | ValueError

text \<open>
  A call either returns a value or raises; in both cases the mutations made so far stay.
\<close>

datatype ('a, 's) outcome = Raised error 's | Returned 'a 's

text \<open>
  A line read by \<^verbatim>\<open>input()\<close>, after the \<^verbatim>\<open>strip()\<close> and \<^verbatim>\<open>lower()\<close> the
  source applies to it: \<open>Number n\<close> is the decimal numeral of \<open>n\<close> (accepted by
  \<^verbatim>\<open>int()\<close>, and by \<^verbatim>\<open>isdigit()\<close> when \<open>n\<close> is not negative), \<open>Text s\<close> is any
  other line (\<^verbatim>\<open>int()\<close> raises ValueError on it) that \<^verbatim>\<open>isdigit()\<close> rejects, and
  \<open>DigitText s\<close> is a line that \<^verbatim>\<open>isdigit()\<close> accepts although \<^verbatim>\<open>int()\<close> raises
  ValueError on it (superscript digits, for instance). Reading past the last line raises
  EOFError.
\<close>

datatype input_line = Number int | Text string | DigitText string

definition update_card :: "card_ref \<Rightarrow> (card \<Rightarrow> card) \<Rightarrow> game_state \<Rightarrow> game_state" where
  "update_card c f gs = gs\<lparr>cards := (cards gs)(c := f (cards gs c))\<rparr>"

definition update_player ::
  "player_id \<Rightarrow> (player_zones \<Rightarrow> player_zones) \<Rightarrow> game_state \<Rightarrow> game_state" where
  "update_player p f gs = gs\<lparr>players := (players gs)(p := f (players gs p))\<rparr>"

definition print :: "event \<Rightarrow> game_state \<Rightarrow> game_state" where
  "print e gs = gs\<lparr>stdout := stdout gs @ [e]\<rparr>"

section \<open>Card\<close>

text \<open>
  \<^verbatim>\<open>Card.__init__\<close> with its two optional arguments left at their defaults
  (\<^verbatim>\<open>is_wall_card=False\<close>, \<^verbatim>\<open>initial_action_point=None\<close>), as every call in the
  source does.
\<close>

definition Card_init ::
  "string \<Rightarrow> string \<Rightarrow> int \<Rightarrow> string \<Rightarrow> bool \<Rightarrow> int \<Rightarrow> int \<Rightarrow> int \<Rightarrow> string \<Rightarrow> string \<Rightarrow>
   string \<Rightarrow> bool \<Rightarrow> card" where
  "Card_init nm cls bonus atype trigger aval ap dp sub cast special is_char =
     \<lparr>name = nm, character_class = cls, damage_bonus = bonus, attack_type = atype,
      special_ability_trigger = trigger, attack_value = aval,
      action_point = (if nm \<in> set [''Jack of Clubs'', ''Jack of Diamonds''] then 2 else ap),
      initial_action_point = ap, damage_points = dp, sub_class = sub, cast_ability = cast,
      special_ability = special, is_a_character = is_char, is_face_down = True,
      is_wall_card = False, invulnerable_to_magic_ranged = False, has_attacked = False,
      player = None\<rparr>"


text \<open>\<^verbatim>\<open>Card.set_player\<close>.\<close>

definition set_player :: "card_ref \<Rightarrow> player_id \<Rightarrow> game_state \<Rightarrow> game_state" where
  "set_player c p gs = update_card c (\<lambda>k. k\<lparr>player := Some p\<rparr>) gs"

text \<open>
  \<^verbatim>\<open>Card.destroy_card\<close>: prints, and when the card has a player appends the card to that
  player's discard pile, then removes it from that player's field zone if it is there.
\<close>

definition destroy_card :: "card_ref \<Rightarrow> game_state \<Rightarrow> game_state" where
  "destroy_card c gs =
     (let gs1 = print (IsDestroyed c) gs in
      case player (cards gs1 c) of
        None \<Rightarrow> gs1
      | Some p \<Rightarrow>
          (let gs2 = update_player p (\<lambda>z. z\<lparr>discard_pile := discard_pile z @ [c]\<rparr>) gs1 in
           if c \<in> set (field_zone (players gs2 p))
           then update_player p (\<lambda>z. z\<lparr>field_zone := remove1 c (field_zone z)\<rparr>) gs2
           else gs2))"

text \<open>\<^verbatim>\<open>Card.take_damage\<close>.\<close>

definition take_damage :: "card_ref \<Rightarrow> int \<Rightarrow> game_state \<Rightarrow> game_state" where
  "take_damage c damage gs =
     (let gs1 = update_card c (\<lambda>k. k\<lparr>damage_points := damage_points k - damage\<rparr>) gs in
      if damage_points (cards gs1 c) \<le> 0 then destroy_card c gs1 else gs1)"

text \<open>A sequence of damage applications to one card, in order.\<close>

definition take_damages :: "card_ref \<Rightarrow> int list \<Rightarrow> game_state \<Rightarrow> game_state" where
  "take_damages c ds gs = foldl (\<lambda>s d. take_damage c d s) gs ds"

text \<open>
  How many of the applications \<open>ds\<close> leave a card that started with \<open>a\<close> damage points
  at or below zero, when nothing clamps the points.
\<close>

definition prefix_hits :: "int \<Rightarrow> int list \<Rightarrow> nat" where
  "prefix_hits a ds =
     length (filter (\<lambda>n. a - sum_list (take (Suc n) ds) \<le> 0) [0..<length ds])"

text \<open>\<^verbatim>\<open>Card.is_trap\<close>.\<close>

definition is_trap :: "card \<Rightarrow> bool" where
  "is_trap k = (name k = ''7'')"

section \<open>Player\<close>

text \<open>\<^verbatim>\<open>Player.__init__\<close>.\<close>

definition Player_init :: "string \<Rightarrow> player_zones" where
  "Player_init nm =
     \<lparr>player_name = nm, hand = [], wall = [], battlement_zone = [], field_zone = [],
      discard_pile = []\<rparr>"

text \<open>\<^verbatim>\<open>Player.discard_card\<close>.\<close>

definition discard_card :: "player_id \<Rightarrow> card_ref \<Rightarrow> game_state \<Rightarrow> game_state" where
  "discard_card p c gs =
     (if c \<in> set (hand (players gs p))
      then print (Discards p c)
             (update_player p (\<lambda>z. z\<lparr>discard_pile := discard_pile z @ [c]\<rparr>)
               (update_player p (\<lambda>z. z\<lparr>hand := remove1 c (hand z)\<rparr>) gs))
      else print (ErrorNotInHand p c) gs)"

text \<open>\<^verbatim>\<open>Player.place_card_in_wall\<close>.\<close>

definition place_card_in_wall :: "player_id \<Rightarrow> card_ref \<Rightarrow> game_state \<Rightarrow> game_state" where
  "place_card_in_wall p c gs =
     (if length (wall (players gs p)) < 14
      then print (PlacesInWall p)
             (update_card c (\<lambda>k. k\<lparr>is_face_down := True\<rparr>)
               (update_player p (\<lambda>z. z\<lparr>wall := wall z @ [c]\<rparr>) gs))
      else print WallFull
             (update_player p (\<lambda>z. z\<lparr>discard_pile := discard_pile z @ [c]\<rparr>) gs))"

text \<open>A sequence of placements, each by the named player, in order.\<close>

definition place_cards_in_wall :: "(player_id \<times> card_ref) list \<Rightarrow> game_state \<Rightarrow> game_state" where
  "place_cards_in_wall pcs gs = foldl (\<lambda>s (p, c). place_card_in_wall p c s) gs pcs"

section \<open>GameState and RoundManager: combat\<close>

text \<open>
  \<^verbatim>\<open>GameState.opponent\<close>: \<^verbatim>\<open>next(p for p in self.players if p != player)\<close> over the
  two players. The argument is whatever the caller passes; \<^verbatim>\<open>Card.player\<close> is
  \<^verbatim>\<open>None\<close> unless \<^verbatim>\<open>set_player\<close> was called, and \<^verbatim>\<open>None\<close> differs from every
  player, so the first player is returned for it.
\<close>

definition opponent :: "player_id option \<Rightarrow> player_id" where
  "opponent p = (if Some Player1 \<noteq> p then Player1 else Player2)"

text \<open>\<^verbatim>\<open>RoundManager.apply_damage_to_target\<close> (the two-argument method the melee path calls).\<close>

definition apply_damage_to_target :: "card_ref \<Rightarrow> card_ref \<Rightarrow> game_state \<Rightarrow> game_state" where
  "apply_damage_to_target attacking_card target gs =
     (let damage = attack_value (cards gs attacking_card);
          gs1 = update_card target (\<lambda>k. k\<lparr>damage_points := damage_points k - damage\<rparr>) gs
      in if damage_points (cards gs1 target) \<le> 0
         then
           (let gs2 = print (IsDestroyed target) gs1;
                target_player = opponent (player (cards gs2 attacking_card));
                gs3 = update_player target_player
                        (\<lambda>z. z\<lparr>discard_pile := discard_pile z @ [target]\<rparr>) gs2
            in if target \<in> set (field_zone (players gs3 target_player))
               then update_player target_player
                      (\<lambda>z. z\<lparr>field_zone := remove1 target (field_zone z)\<rparr>) gs3
               else gs3)
         else gs1)"

text \<open>
  The targets \<^verbatim>\<open>select_melee_target\<close> offers: the opponent's field zone, and the
  opponent's wall when the field zone is empty.
\<close>

definition available_targets :: "player_id \<Rightarrow> game_state \<Rightarrow> card_ref list" where
  "available_targets attacking_player gs =
     (let opp = players gs (opponent (Some attacking_player))
      in field_zone opp @ (if field_zone opp = [] then wall opp else []))"

text \<open>
  The input loop of \<^verbatim>\<open>select_melee_target\<close>: it asks again after a line that is not a
  number and after an index out of range.
\<close>

fun select_melee_target_loop ::
  "card_ref list \<Rightarrow> input_line list \<Rightarrow> game_state \<Rightarrow>
   (card_ref option \<times> input_line list, game_state) outcome" where
  "select_melee_target_loop targets [] gs = Raised EOFError gs"
| "select_melee_target_loop targets (Number i # ins) gs =
     (if 0 \<le> i \<and> i < int (length targets)
      then Returned (Some (targets ! nat i), ins) gs
      else select_melee_target_loop targets ins gs)"
| "select_melee_target_loop targets (Text s # ins) gs =
     select_melee_target_loop targets ins gs"
| "select_melee_target_loop targets (DigitText s # ins) gs =
     select_melee_target_loop targets ins gs"

text \<open>\<^verbatim>\<open>RoundManager.select_melee_target\<close>; the result \<open>None\<close> is Python's \<^verbatim>\<open>None\<close>.\<close>

definition select_melee_target ::
  "player_id \<Rightarrow> input_line list \<Rightarrow> game_state \<Rightarrow>
   (card_ref option \<times> input_line list, game_state) outcome" where
  "select_melee_target attacking_player ins gs =
     (let targets = available_targets attacking_player gs
      in if targets = [] then Returned (None, ins) (print NoAvailableTargets gs)
         else select_melee_target_loop targets ins gs)"

text \<open>\<^verbatim>\<open>RoundManager.perform_selected_melee_action\<close>; the value returned is the input left.\<close>

definition perform_selected_melee_action ::
  "player_id \<Rightarrow> card_ref \<Rightarrow> input_line list \<Rightarrow> game_state \<Rightarrow>
   (input_line list, game_state) outcome" where
  "perform_selected_melee_action attacking_player selected_card ins gs =
     (if action_point (cards gs selected_card) \<le> 0
      then Returned ins (print (NoActionPointsLeft selected_card) gs)
      else
        case select_melee_target attacking_player ins gs of
          Raised e gs1 \<Rightarrow> Raised e gs1
        | Returned (None, rest) gs1 \<Rightarrow> Returned rest (print NoValidTarget gs1)
        | Returned (Some target, rest) gs1 \<Rightarrow>
            Returned rest
              (update_card selected_card (\<lambda>k. k\<lparr>action_point := action_point k - 1\<rparr>)
                (apply_damage_to_target selected_card target gs1)))"

text \<open>
  The damage source \<^verbatim>\<open>check_source_of_damage\<close> asks for, by the card's sub-class;
  \<open>None\<close> is the \<^verbatim>\<open>else: return False\<close> branch.
\<close>

definition damage_source :: "card \<Rightarrow> string option" where
  "damage_source k =
     (if sub_class k \<in> set [''2'', ''3'', ''Jack''] then Some ''Ammo''
      else if sub_class k \<in> set [''8'', ''9'', ''Queen''] then Some ''Magic''
      else None)"

text \<open>\<^verbatim>\<open>RoundManager.check_source_of_damage\<close>.\<close>

definition check_source_of_damage ::
  "card_ref \<Rightarrow> player_id \<Rightarrow> game_state \<Rightarrow> bool \<times> game_state" where
  "check_source_of_damage c p gs =
     (case damage_source (cards gs c) of
        None \<Rightarrow> (False, gs)
      | Some src \<Rightarrow>
          (case find (\<lambda>h. name (cards gs h) = src) (hand (players gs p)) of
             None \<Rightarrow> (False, gs)
           | Some hand_card \<Rightarrow>
               (True,
                update_player p (\<lambda>z. z\<lparr>discard_pile := discard_pile z @ [hand_card]\<rparr>)
                  (update_player p (\<lambda>z. z\<lparr>hand := remove1 hand_card (hand z)\<rparr>) gs))))"

text \<open>
  \<^verbatim>\<open>RoundManager.perform_selected_ranged_action\<close>. For a card in the battlement zone it
  calls \<^verbatim>\<open>handle_bz_ranged_attack\<close>, whose first statement evaluates
  \<^verbatim>\<open>attacking_card.is_joker()\<close>; class Card has no such method. For a card in the field
  zone it calls \<^verbatim>\<open>self.handle_fz_ranged_attack\<close>, which RoundManager does not define.
  Python raises AttributeError in both cases, before anything is changed.
\<close>

definition perform_selected_ranged_action ::
  "player_id \<Rightarrow> card_ref \<Rightarrow> game_state \<Rightarrow> (unit, game_state) outcome" where
  "perform_selected_ranged_action p selected_card gs =
     (if selected_card \<in> set (battlement_zone (players gs p)) then Raised AttributeError gs
      else if selected_card \<in> set (field_zone (players gs p)) then Raised AttributeError gs
      else Returned ()
             (update_card selected_card (\<lambda>k. k\<lparr>action_point := action_point k - 1\<rparr>) gs))"

text \<open>The list comprehension at the head of the loop of \<^verbatim>\<open>handle_ranged_actions\<close>.\<close>

definition ranged_characters :: "player_id \<Rightarrow> game_state \<Rightarrow> card_ref list" where
  "ranged_characters p gs =
     filter (\<lambda>c. attack_type (cards gs c) = ''Ranged'' \<and> 0 < action_point (cards gs c))
       (field_zone (players gs p) @ battlement_zone (players gs p))"

text \<open>
  \<^verbatim>\<open>RoundManager.handle_ranged_actions\<close>: one round of the \<^verbatim>\<open>while True\<close> loop per line
  of input, with the flag \<^verbatim>\<open>ranged_actions_taken\<close> as an argument. The value returned is
  the input left.
\<close>

fun handle_ranged_actions_loop ::
  "player_id \<Rightarrow> bool \<Rightarrow> input_line list \<Rightarrow> game_state \<Rightarrow>
   (input_line list, game_state) outcome" where
  "handle_ranged_actions_loop p taken [] gs =
     (if ranged_characters p gs = []
      then Returned [] (if \<not> taken then print NoRangedCharacters gs else gs)
      else Raised EOFError gs)"
| "handle_ranged_actions_loop p taken (Text s # ins) gs =
     (if ranged_characters p gs = []
      then Returned (Text s # ins) (if \<not> taken then print NoRangedCharacters gs else gs)
      else if s = ''pass'' then Returned ins gs
      else handle_ranged_actions_loop p taken ins gs)"
| "handle_ranged_actions_loop p taken (DigitText s # ins) gs =
     (if ranged_characters p gs = []
      then Returned (DigitText s # ins) (if \<not> taken then print NoRangedCharacters gs else gs)
      else handle_ranged_actions_loop p taken ins gs)"
| "handle_ranged_actions_loop p taken (Number i # ins) gs =
     (if ranged_characters p gs = []
      then Returned (Number i # ins) (if \<not> taken then print NoRangedCharacters gs else gs)
      else if 0 \<le> i \<and> i < int (length (ranged_characters p gs))
      then
        (let selected_card = ranged_characters p gs ! nat i
         in case check_source_of_damage selected_card p gs of
              (True, gs1) \<Rightarrow>
                (case perform_selected_ranged_action p selected_card gs1 of
                   Raised e gs2 \<Rightarrow> Raised e gs2
                 | Returned u gs2 \<Rightarrow> handle_ranged_actions_loop p True ins gs2)
            | (False, gs1) \<Rightarrow>
                handle_ranged_actions_loop p taken ins (print InsufficientSource gs1))
      else handle_ranged_actions_loop p taken ins gs)"

definition handle_ranged_actions ::
  "player_id \<Rightarrow> input_line list \<Rightarrow> game_state \<Rightarrow> (input_line list, game_state) outcome" where
  "handle_ranged_actions p ins gs = handle_ranged_actions_loop p False ins gs"

section \<open>Example states and observations\<close>

text \<open>
  A two-player game with empty zones and no decks, and a store in which every reference
  holds the same plain character card. The examples below build their states from it with
  the program's own operations and by filling zones.
\<close>

definition plain_card :: card where
  "plain_card =
     Card_init ''2 of Hearts'' ''Warrior'' 0 ''Melee'' False 1 1 1 ''2'' ''-'' ''-'' True"

definition empty_game :: game_state where
  "empty_game =
     \<lparr>cards = (\<lambda>_. plain_card),
      players = (\<lambda>p. case p of Player1 \<Rightarrow> Player_init ''Player1''
                               | Player2 \<Rightarrow> Player_init ''Player2''),
      decks = Map.empty, stdout = []\<rparr>"

definition with_hand :: "player_id \<Rightarrow> card_ref list \<Rightarrow> game_state \<Rightarrow> game_state" where
  "with_hand p cs gs = update_player p (\<lambda>z. z\<lparr>hand := cs\<rparr>) gs"

definition with_wall :: "player_id \<Rightarrow> card_ref list \<Rightarrow> game_state \<Rightarrow> game_state" where
  "with_wall p cs gs = update_player p (\<lambda>z. z\<lparr>wall := cs\<rparr>) gs"

definition with_field_zone :: "player_id \<Rightarrow> card_ref list \<Rightarrow> game_state \<Rightarrow> game_state" where
  "with_field_zone p cs gs = update_player p (\<lambda>z. z\<lparr>field_zone := cs\<rparr>) gs"

definition with_battlement_zone ::
  "player_id \<Rightarrow> card_ref list \<Rightarrow> game_state \<Rightarrow> game_state" where
  "with_battlement_zone p cs gs = update_player p (\<lambda>z. z\<lparr>battlement_zone := cs\<rparr>) gs"

definition with_card :: "card_ref \<Rightarrow> card \<Rightarrow> game_state \<Rightarrow> game_state" where
  "with_card c k gs = update_card c (\<lambda>_. k) gs"

text \<open>A line the index loops accept for a list of \<open>n\<close> entries.\<close>

definition is_index :: "nat \<Rightarrow> input_line \<Rightarrow> bool" where
  "is_index n l =
     (case l of Number i \<Rightarrow> 0 \<le> i \<and> i < int n | Text s \<Rightarrow> False | DigitText s \<Rightarrow> False)"

text \<open>Reading the result of a call: the state it leaves, and whether it returned.\<close>

definition state_of :: "('a, 's) outcome \<Rightarrow> 's" where
  "state_of r = (case r of Raised e s \<Rightarrow> s | Returned v s \<Rightarrow> s)"

definition returned :: "('a, 's) outcome \<Rightarrow> bool" where
  "returned r = (case r of Raised e s \<Rightarrow> False | Returned v s \<Rightarrow> True)"

text \<open>
  The player holds, in hand, a card named as the damage source the attacking card needs.
\<close>

definition holds_source :: "player_id \<Rightarrow> card_ref \<Rightarrow> game_state \<Rightarrow> bool" where
  "holds_source p c gs =
     (case damage_source (cards gs c) of
        None \<Rightarrow> False
      | Some src \<Rightarrow> list_ex (\<lambda>h. name (cards gs h) = src) (hand (players gs p)))"

text \<open>
  Player1 has the plain melee card 0 (attack value 1, one action point) in the field zone;
  Player2 has an empty field zone and the plain card 1 (one damage point) as the only wall
  card.
\<close>

definition melee_example :: game_state where
  "melee_example = with_wall Player2 [1] (with_field_zone Player1 [0] empty_game)"

text \<open>Two game states that differ at most in what was printed.\<close>

definition same_game :: "game_state \<Rightarrow> game_state \<Rightarrow> bool" where
  "same_game gs' gs = (cards gs' = cards gs \<and> players gs' = players gs \<and> decks gs' = decks gs)"

text \<open>
  A call that left the game as it was (up to printed lines) and either returned or ran out
  of input.
\<close>

definition blocked_result :: "('a, game_state) outcome \<Rightarrow> game_state \<Rightarrow> bool" where
  "blocked_result r gs =
     (same_game (state_of r) gs \<and> (returned r \<or> r = Raised EOFError (state_of r)))"

text \<open>
  Player1 has the ranged character 0 (sub-class Jack, which needs Ammo) in the battlement
  zone and holds only the plain card 5.
\<close>

definition ranged_example :: game_state where
  "ranged_example =
     with_hand Player1 [5]
       (with_battlement_zone Player1 [0]
         (with_card 0
           (Card_init ''Jack of Clubs'' ''Marksman'' 0 ''Ranged'' False 1 1 1 ''Jack'' ''-'' ''-''
              True)
           empty_game))"

section \<open>Deck and GameState\<close>

text \<open>
  \<^verbatim>\<open>Deck.create_joker_card\<close>.
\<close>

definition create_joker_card :: card where
  "create_joker_card =
     Card_init ''Joker'' ''-'' 0 ''Ranged'' True 2 0 1 ''-'' ''Uber Damage''
       ''Deals unblockable, ravage, preternatural, ranged damage equal to 2 plus the characters' bonus damage for each Action Point off that Character''
       False"

text \<open>
  \<^verbatim>\<open>Deck.__init__\<close>. The argument \<open>catalog\<close> is what \<^verbatim>\<open>load_cards_from_csv\<close>
  returns: one new Card object per row of the file, or no card when reading fails. The
  argument \<open>shuffle\<close> is the rearrangement \<^verbatim>\<open>random.shuffle\<close> makes. The new Card objects
  get the references from \<open>free\<close> on, in row order, and the one Joker object the next one;
  \<^verbatim>\<open>list * 2\<close> repeats the references, and the same Joker object is appended twice. The
  result is the deck, the next free reference and the store.
\<close>

definition Deck_init ::
  "card list \<Rightarrow> (card_ref list \<Rightarrow> card_ref list) \<Rightarrow> card_ref \<Rightarrow> (card_ref \<Rightarrow> card) \<Rightarrow>
   card_ref list \<times> card_ref \<times> (card_ref \<Rightarrow> card)" where
  "Deck_init catalog shuffle free store =
     (let loaded = [free ..< free + length catalog];
          store1 = (\<lambda>r. if free \<le> r \<and> r < free + length catalog then catalog ! (r - free)
                         else store r);
          joker = free + length catalog;
          store2 = store1(joker := create_joker_card)
      in (shuffle (loaded @ loaded @ [joker, joker]), Suc joker, store2))"

text \<open>
  \<^verbatim>\<open>Deck.draw\<close>: the last card of the list, or \<^verbatim>\<open>None\<close> from an empty deck.
\<close>

definition draw :: "card_ref list \<Rightarrow> card_ref option \<times> card_ref list" where
  "draw deck = (if deck = [] then (None, deck) else (Some (last deck), butlast deck))"

text \<open>
  \<^verbatim>\<open>[deck.draw() for _ in range(n)]\<close>.
\<close>

fun draw_many :: "nat \<Rightarrow> card_ref list \<Rightarrow> card_ref option list \<times> card_ref list" where
  "draw_many 0 deck = ([], deck)"
| "draw_many (Suc n) deck =
     (let (c, deck1) = draw deck; (cs, deck2) = draw_many n deck1 in (c # cs, deck2))"

text \<open>
  The body of the loop of \<^verbatim>\<open>GameState.assign_initial_cards\<close> for one player. The deck
  is looked up under the player's name (KeyError when there is none). When the deck holds
  fewer than 20 cards the source stores \<^verbatim>\<open>None\<close> in the hand; zones of this model hold
  card references only, so the result is \<open>None\<close> there and nothing is stated about such a
  game.
\<close>

definition deal_initial_cards :: "player_id \<Rightarrow> game_state \<Rightarrow> (unit, game_state) outcome option" where
  "deal_initial_cards p gs =
     (case decks gs (player_name (players gs p)) of
        None \<Rightarrow> Some (Raised KeyError gs)
      | Some deck \<Rightarrow>
          (let (drawn, deck1) = draw_many 20 deck
           in if list_ex (\<lambda>d. d = None) drawn then None
              else
                Some (Returned ()
                  (update_player p
                     (\<lambda>z. z\<lparr>hand := drop 10 (map the drawn), wall := take 10 (map the drawn)\<rparr>)
                     (gs\<lparr>decks := (decks gs)(player_name (players gs p) \<mapsto> deck1)\<rparr>)))))"

text \<open>
  \<^verbatim>\<open>GameState.assign_initial_cards\<close>.
\<close>

definition assign_initial_cards :: "game_state \<Rightarrow> (unit, game_state) outcome option" where
  "assign_initial_cards gs =
     (case deal_initial_cards Player1 gs of
        None \<Rightarrow> None
      | Some (Raised e gs1) \<Rightarrow> Some (Raised e gs1)
      | Some (Returned u gs1) \<Rightarrow> deal_initial_cards Player2 gs1)"

text \<open>
  \<^verbatim>\<open>GameState.__init__\<close> for two player names: the players, one deck per player stored
  under the player's name (a second deck under the same name replaces the first), and the
  initial deal. Each \<^verbatim>\<open>Deck(...)\<close> reads the file and shuffles on its own.
\<close>

definition GameState_init ::
  "string \<Rightarrow> string \<Rightarrow> card list \<Rightarrow> card list \<Rightarrow> (card_ref list \<Rightarrow> card_ref list) \<Rightarrow>
   (card_ref list \<Rightarrow> card_ref list) \<Rightarrow> (unit, game_state) outcome option" where
  "GameState_init name1 name2 catalog1 catalog2 shuffle1 shuffle2 =
     (let (deck1, free1, store1) = Deck_init catalog1 shuffle1 0 (\<lambda>_. plain_card);
          (deck2, free2, store2) = Deck_init catalog2 shuffle2 free1 store1
      in assign_initial_cards
           \<lparr>cards = store2,
            players = (\<lambda>p. case p of Player1 \<Rightarrow> Player_init name1
                                     | Player2 \<Rightarrow> Player_init name2),
            decks = (Map.empty(name1 \<mapsto> deck1))(name2 \<mapsto> deck2),
            stdout = []\<rparr>)"









text \<open>
  A rearrangement: as long as its argument, with every entry as often as before.
\<close>

definition is_shuffle :: "(card_ref list \<Rightarrow> card_ref list) \<Rightarrow> bool" where
  "is_shuffle f =
     (\<forall>xs. length (f xs) = length xs \<and> (\<forall>x. count_list (f xs) x = count_list xs x))"

text \<open>
  The deck of a player, as \<^verbatim>\<open>self.decks[player.name]\<close> finds it.
\<close>

definition deck_of :: "player_id \<Rightarrow> game_state \<Rightarrow> card_ref list" where
  "deck_of p gs = (case decks gs (player_name (players gs p)) of None \<Rightarrow> [] | Some d \<Rightarrow> d)"

section \<open>RoundManager: the Joker attack\<close>

text \<open>
  \<^verbatim>\<open>RoundManager.get_yes_no_input\<close>: asks until the line is yes or no; \<open>None\<close> is
  the EOFError of a read past the last line.
\<close>

fun get_yes_no_input :: "input_line list \<Rightarrow> (bool \<times> input_line list) option" where
  "get_yes_no_input [] = None"
| "get_yes_no_input (Text s # ins) =
     (if s \<in> set [''yes'', ''no''] then Some (s = ''yes'', ins) else get_yes_no_input ins)"
| "get_yes_no_input (Number n # ins) = get_yes_no_input ins"
| "get_yes_no_input (DigitText s # ins) = get_yes_no_input ins"

text \<open>
  The loop of \<^verbatim>\<open>RoundManager.calculate_joker_damage\<close> over the cards of the player's
  field zone: a yes takes one action point from the card, whatever the card has left, and
  adds one to the total.
\<close>

fun calculate_joker_damage_loop ::
  "card_ref list \<Rightarrow> int \<Rightarrow> input_line list \<Rightarrow> game_state \<Rightarrow>
   (int \<times> input_line list, game_state) outcome" where
  "calculate_joker_damage_loop [] total_damage ins gs = Returned (total_damage, ins) gs"
| "calculate_joker_damage_loop (c # cs) total_damage ins gs =
     (case get_yes_no_input ins of
        None \<Rightarrow> Raised EOFError gs
      | Some (True, rest) \<Rightarrow>
          calculate_joker_damage_loop cs (total_damage + 1) rest
            (update_card c (\<lambda>k. k\<lparr>action_point := action_point k - 1\<rparr>) gs)
      | Some (False, rest) \<Rightarrow> calculate_joker_damage_loop cs total_damage rest gs)"

text \<open>
  \<^verbatim>\<open>RoundManager.calculate_joker_damage\<close>, with the base damage 2.
\<close>

definition calculate_joker_damage ::
  "player_id \<Rightarrow> input_line list \<Rightarrow> game_state \<Rightarrow>
   (int \<times> input_line list, game_state) outcome" where
  "calculate_joker_damage p ins gs =
     calculate_joker_damage_loop (field_zone (players gs p)) 2 ins gs"

text \<open>
  \<^verbatim>\<open>RoundManager.assign_damage_to_zone\<close>. The loop runs while damage is left and the
  zone is not empty. The first statement of its body prints \<^verbatim>\<open>zone.name\<close>; the zone is
  a Python list, which has no attribute \<^verbatim>\<open>name\<close>, so the first round of the loop raises
  AttributeError before it reads input or changes a card. The rest of the body (the choice
  of a target, the decrement clamped at zero, the removal from the zone) is never reached.
\<close>

definition assign_damage_to_zone ::
  "card_ref list \<Rightarrow> int \<Rightarrow> bool \<Rightarrow> game_state \<Rightarrow> (unit, game_state) outcome" where
  "assign_damage_to_zone zone damage is_wall gs =
     (if 0 < damage \<and> zone \<noteq> [] then Raised AttributeError gs else Returned () gs)"

text \<open>
  \<^verbatim>\<open>RoundManager.handle_joker_attack\<close>. The same \<^verbatim>\<open>total_damage\<close> is passed to each
  of the three calls: \<^verbatim>\<open>assign_damage_to_zone\<close> counts down its own parameter only. The
  value returned is the input left.
\<close>

definition handle_joker_attack ::
  "player_id \<Rightarrow> input_line list \<Rightarrow> game_state \<Rightarrow> (input_line list, game_state) outcome" where
  "handle_joker_attack p ins gs =
     (let opp = opponent (Some p)
      in case calculate_joker_damage p ins gs of
           Raised e gs1 \<Rightarrow> Raised e gs1
         | Returned (total_damage, rest) gs1 \<Rightarrow>
             (case assign_damage_to_zone (field_zone (players gs1 opp)) total_damage False gs1 of
                Raised e gs2 \<Rightarrow> Raised e gs2
              | Returned u gs2 \<Rightarrow>
                  (case (if 0 < total_damage
                         then assign_damage_to_zone (wall (players gs2 opp)) total_damage True gs2
                         else Returned () gs2) of
                     Raised e gs3 \<Rightarrow> Raised e gs3
                   | Returned u gs3 \<Rightarrow>
                       (case (if 0 < total_damage
                              then assign_damage_to_zone (battlement_zone (players gs3 opp))
                                     total_damage False gs3
                              else Returned () gs3) of
                          Raised e gs4 \<Rightarrow> Raised e gs4
                        | Returned u gs4 \<Rightarrow> Returned rest gs4))))"

text \<open>
  Player1 has the plain card 0 in the field zone, Player2 the plain card 1 (one damage
  point).
\<close>

definition joker_example :: game_state where
  "joker_example = with_field_zone Player2 [1] (with_field_zone Player1 [0] empty_game)"

section \<open>RoundManager: the Action Sequence Pile\<close>

text \<open>
  A RoundManager object: its pile \<^verbatim>\<open>self.asp\<close> of (player, card) pairs and the game it
  manages. Methods of Player and the methods of RoundManager that never mention
  \<^verbatim>\<open>self.asp\<close> are modelled on the game state alone.
\<close>

record round_manager =
  asp :: "(player_id \<times> card_ref) list"
  game_state :: game_state

text \<open>
  What \<^verbatim>\<open>choose_action_for_asp\<close> returns: \<^verbatim>\<open>('card', card)\<close>,
  \<^verbatim>\<open>('token', None)\<close> or \<^verbatim>\<open>('stats', None)\<close>.
\<close>

datatype asp_action = CardAction card_ref | TokenAction | StatsAction

text \<open>
  \<^verbatim>\<open>Player.choose_action_for_asp\<close>: a line of digits in range pops that card from the
  hand; any other line but token and stats is asked for again. The conversion
  \<^verbatim>\<open>int(choice)\<close> stands outside any \<^verbatim>\<open>try\<close>, so a line that \<^verbatim>\<open>isdigit()\<close> accepts
  and \<^verbatim>\<open>int()\<close> rejects raises ValueError.
\<close>

fun choose_action_for_asp ::
  "player_id \<Rightarrow> input_line list \<Rightarrow> game_state \<Rightarrow>
   (asp_action \<times> input_line list, game_state) outcome" where
  "choose_action_for_asp p [] gs = Raised EOFError gs"
| "choose_action_for_asp p (Number i # ins) gs =
     (if 0 \<le> i
      then
        (if i < int (length (hand (players gs p)))
         then Returned (CardAction (hand (players gs p) ! nat i), ins)
                (update_player p (\<lambda>z. z\<lparr>hand := take (nat i) (hand z) @ drop (Suc (nat i)) (hand z)\<rparr>)
                   gs)
         else choose_action_for_asp p ins gs)
      else choose_action_for_asp p ins gs)"
| "choose_action_for_asp p (Text s # ins) gs =
     (if s = ''token'' then Returned (TokenAction, ins) gs
      else if s = ''stats'' then Returned (StatsAction, ins) gs
      else choose_action_for_asp p ins gs)"
| "choose_action_for_asp p (DigitText s # ins) gs = Raised ValueError gs"

text \<open>
  The order in which \<^verbatim>\<open>handle_asp_actions\<close> asks the players: the \<^verbatim>\<open>for\<close> loop over
  the two players, started again by the \<^verbatim>\<open>while\<close> loop after the second.
\<close>

definition next_player :: "player_id \<Rightarrow> player_id" where
  "next_player p = (case p of Player1 \<Rightarrow> Player2 | Player2 \<Rightarrow> Player1)"

text \<open>
  Every answer of \<^verbatim>\<open>choose_action_for_asp\<close> has read at least one line; the placement
  loop below ends for that reason.
\<close>

lemma choose_action_for_asp_consumes:
  "choose_action_for_asp p ins gs = Returned (a, rest) gs' \<Longrightarrow> length rest < length ins"
  by (induction p ins gs rule: choose_action_for_asp.induct) (auto split: if_splits)

text \<open>
  The placement loop of \<^verbatim>\<open>RoundManager.handle_asp_actions\<close>, from the turn of player
  \<open>p\<close> on: a card is appended to the pile, the token ends the loop, stats passes the turn.
\<close>

function handle_asp_actions_loop ::
  "player_id \<Rightarrow> input_line list \<Rightarrow> round_manager \<Rightarrow> (input_line list, round_manager) outcome"
  where
  "handle_asp_actions_loop p ins rm =
     (case choose_action_for_asp p ins (game_state rm) of
        Raised e gs \<Rightarrow> Raised e (rm\<lparr>game_state := gs\<rparr>)
      | Returned (CardAction c, rest) gs \<Rightarrow>
          handle_asp_actions_loop (next_player p) rest
            (rm\<lparr>asp := asp rm @ [(p, c)], game_state := print (PlacesToASP p c) gs\<rparr>)
      | Returned (TokenAction, rest) gs \<Rightarrow>
          Returned rest (rm\<lparr>game_state := print (PlacesToken p) gs\<rparr>)
      | Returned (StatsAction, rest) gs \<Rightarrow>
          handle_asp_actions_loop (next_player p) rest (rm\<lparr>game_state := gs\<rparr>))"
  by pat_completeness auto
termination
  by (relation "measure (\<lambda>(p, ins, rm). length ins)")
     (auto dest: choose_action_for_asp_consumes)

declare handle_asp_actions_loop.simps [simp del]

text \<open>
  \<^verbatim>\<open>RoundManager.handle_trap_card\<close>: the methods \<^verbatim>\<open>resolve_melee_trap\<close> and
  \<^verbatim>\<open>resolve_ranged_trap\<close> it calls are not defined anywhere, so both branches raise
  AttributeError; with any other attack type nothing happens.
\<close>

definition handle_trap_card ::
  "player_id \<Rightarrow> card_ref \<Rightarrow> game_state \<Rightarrow> (unit, game_state) outcome" where
  "handle_trap_card p c gs =
     (if attack_type (cards gs c) = ''melee'' then Raised AttributeError gs
      else if attack_type (cards gs c) = ''ranged'' then Raised AttributeError gs
      else Returned () gs)"

text \<open>
  \<^verbatim>\<open>RoundManager.get_asp_card_choice\<close>: asks until the line is 1, 2 or 3; \<open>None\<close> is the
  EOFError of a read past the last line.
\<close>

fun get_asp_card_choice :: "input_line list \<Rightarrow> (int \<times> input_line list) option" where
  "get_asp_card_choice [] = None"
| "get_asp_card_choice (Number i # ins) =
     (if i \<in> set [1, 2, 3] then Some (i, ins) else get_asp_card_choice ins)"
| "get_asp_card_choice (Text s # ins) = get_asp_card_choice ins"
| "get_asp_card_choice (DigitText s # ins) = get_asp_card_choice ins"

text \<open>
  \<^verbatim>\<open>Player.reveal_and_resolve_card\<close>, with everything it calls (the abilities), is a
  parameter of the resolution: a function of the player, the card, the input and the game
  state that returns the input left, or raises. It is a method of Player and reaches the
  players, the cards and the decks; nothing it calls reads or writes the pile.
\<close>

type_synonym reveal =
  "player_id \<Rightarrow> card_ref \<Rightarrow> input_line list \<Rightarrow> game_state \<Rightarrow>
   (input_line list, game_state) outcome"

text \<open>
  \<^verbatim>\<open>RoundManager.resolve_asp_card\<close>.
\<close>

definition resolve_asp_card ::
  "reveal \<Rightarrow> player_id \<Rightarrow> card_ref \<Rightarrow> input_line list \<Rightarrow> game_state \<Rightarrow>
   (input_line list, game_state) outcome" where
  "resolve_asp_card reveal_and_resolve_card p c ins gs =
     (let gs1 = print (ResolvingFromASP p c) gs
      in if is_trap (cards gs1 c)
         then (case handle_trap_card p c gs1 of
                 Raised e gs2 \<Rightarrow> Raised e gs2
               | Returned u gs2 \<Rightarrow> Returned ins gs2)
         else
           (case get_asp_card_choice ins of
              None \<Rightarrow> Raised EOFError gs1
            | Some (choice, rest) \<Rightarrow>
                if choice = 1 then reveal_and_resolve_card p c rest gs1
                else if choice = 2 then Returned rest (discard_card p c gs1)
                else if choice = 3 then Returned rest (place_card_in_wall p c gs1)
                else Returned rest gs1))"

text \<open>
  \<^verbatim>\<open>RoundManager.resolve_asp\<close>: while the pile is not empty, pop its last pair and
  resolve it.
\<close>

function resolve_asp ::
  "reveal \<Rightarrow> input_line list \<Rightarrow> round_manager \<Rightarrow> (input_line list, round_manager) outcome"
  where
  "resolve_asp reveal_and_resolve_card ins rm =
     (if asp rm = [] then Returned ins rm
      else
        (let (p, c) = last (asp rm);
             rm1 = rm\<lparr>asp := butlast (asp rm)\<rparr>
         in case resolve_asp_card reveal_and_resolve_card p c ins (game_state rm1) of
              Raised e gs \<Rightarrow> Raised e (rm1\<lparr>game_state := gs\<rparr>)
            | Returned rest gs \<Rightarrow>
                resolve_asp reveal_and_resolve_card rest (rm1\<lparr>game_state := gs\<rparr>)))"
  by pat_completeness auto
termination
  by (relation "measure (\<lambda>(r, ins, rm). length (asp rm))") auto

declare resolve_asp.simps [simp del]

text \<open>
  \<^verbatim>\<open>RoundManager.handle_asp_actions\<close>: the placement loop, starting with the first
  player, then the resolution.
\<close>

definition handle_asp_actions ::
  "reveal \<Rightarrow> input_line list \<Rightarrow> round_manager \<Rightarrow> (input_line list, round_manager) outcome"
  where
  "handle_asp_actions reveal_and_resolve_card ins rm =
     (case handle_asp_actions_loop Player1 ins rm of
        Raised e rm1 \<Rightarrow> Raised e rm1
      | Returned rest rm1 \<Rightarrow> resolve_asp reveal_and_resolve_card rest rm1)"

text \<open>
  The specification's reading of the resolution, to compare \<open>resolve_asp\<close> with: the pairs
  of a given list are resolved one after the other in the order of the list, the pile
  holding the pairs still to come.
\<close>

fun resolve_in_order ::
  "reveal \<Rightarrow> (player_id \<times> card_ref) list \<Rightarrow> input_line list \<Rightarrow> round_manager \<Rightarrow>
   (input_line list, round_manager) outcome" where
  "resolve_in_order reveal_and_resolve_card [] ins rm = Returned ins rm"
| "resolve_in_order reveal_and_resolve_card ((p, c) # pcs) ins rm =
     (case resolve_asp_card reveal_and_resolve_card p c ins (game_state rm) of
        Raised e gs \<Rightarrow> Raised e (rm\<lparr>asp := rev pcs, game_state := gs\<rparr>)
      | Returned rest gs \<Rightarrow>
          resolve_in_order reveal_and_resolve_card pcs rest (rm\<lparr>asp := rev pcs, game_state := gs\<rparr>))"

text \<open>
  The pairs placed on the pile according to the printed lines, in the order printed.
\<close>

fun placements :: "event list \<Rightarrow> (player_id \<times> card_ref) list" where
  "placements [] = []"
| "placements (PlacesToASP p c # es) = (p, c) # placements es"
| "placements (e # es) = placements es"

text \<open>
  The pairs whose resolution began according to the printed lines, in the order printed.
\<close>

fun resolutions :: "event list \<Rightarrow> (player_id \<times> card_ref) list" where
  "resolutions [] = []"
| "resolutions (ResolvingFromASP p c # es) = (p, c) # resolutions es"
| "resolutions (e # es) = resolutions es"

text \<open>
  An example: no card reveals anything, both players are dealt cards by hand, Player1
  places 10, Player2 places 20, Player1 places 11, Player2 places the token, and each card
  is then put into its owner's wall (choice 3).
\<close>

definition just_return :: reveal where
  "just_return p c ins gs = Returned ins gs"

definition asp_example :: round_manager where
  "asp_example =
     \<lparr>asp = [], game_state = with_hand Player2 [20] (with_hand Player1 [10, 11] empty_game)\<rparr>"

definition asp_example_input :: "input_line list" where
  "asp_example_input =
     [Number 0, Number 0, Number 0, Text ''token'', Number 3, Number 3, Number 3]"

text \<open>
  A reveal that prints no line of the kind \<^verbatim>\<open>resolve_asp_card\<close> prints and leaves the
  lines printed so far in place.
\<close>

definition silent_reveal :: "reveal \<Rightarrow> bool" where
  "silent_reveal f =
     (\<forall>p c ins gs. resolutions (stdout (state_of (f p c ins gs))) = resolutions (stdout gs))"

section \<open>Helper facts\<close>

lemma players_print [simp]: "players (print e gs) = players gs"
  by (simp add: print_def)

lemma cards_print [simp]: "cards (print e gs) = cards gs"
  by (simp add: print_def)

lemma decks_print [simp]: "decks (print e gs) = decks gs"
  by (simp add: print_def)

lemma stdout_print [simp]: "stdout (print e gs) = stdout gs @ [e]"
  by (simp add: print_def)

lemma players_update_card [simp]: "players (update_card c f gs) = players gs"
  by (simp add: update_card_def)

lemma stdout_update_card [simp]: "stdout (update_card c f gs) = stdout gs"
  by (simp add: update_card_def)

lemma decks_update_card [simp]: "decks (update_card c f gs) = decks gs"
  by (simp add: update_card_def)

lemma cards_update_card [simp]:
  "cards (update_card c f gs) = (cards gs)(c := f (cards gs c))"
  by (simp add: update_card_def)

lemma cards_update_player [simp]: "cards (update_player p f gs) = cards gs"
  by (simp add: update_player_def)

lemma stdout_update_player [simp]: "stdout (update_player p f gs) = stdout gs"
  by (simp add: update_player_def)

lemma decks_update_player [simp]: "decks (update_player p f gs) = decks gs"
  by (simp add: update_player_def)

lemma players_update_player [simp]:
  "players (update_player p f gs) = (players gs)(p := f (players gs p))"
  by (simp add: update_player_def)

lemma count_list_remove1:
  "count_list (remove1 c xs) x = (if x = c then count_list xs x - 1 else count_list xs x)"
  by (induction xs) auto

lemma length_pred_in_set: "c \<in> set xs \<Longrightarrow> Suc (length xs - Suc 0) = length xs"
  by (cases xs) auto

section \<open>Discarding from the hand\<close>

text \<open>
  C10. \<^verbatim>\<open>discard_card\<close> with a card that is in the player's hand removes one occurrence
  of that card from the hand (every other entry stays, in order) and appends it to the same
  player's discard pile, touching nothing else but the printed line. With a card that is
  not in the hand it prints the error line and changes nothing else. The operation has no
  raising branch.
\<close>

theorem discard_card_spec:
  "(c \<in> set (hand (players gs p)) \<longrightarrow>
      discard_card p c gs =
        gs\<lparr>players := (players gs)(p := (players gs p)
                \<lparr>hand := remove1 c (hand (players gs p)),
                 discard_pile := discard_pile (players gs p) @ [c]\<rparr>),
           stdout := stdout gs @ [Discards p c]\<rparr> \<and>
      length (hand (players (discard_card p c gs) p)) + 1 = length (hand (players gs p)) \<and>
      (\<forall>x. count_list (hand (players (discard_card p c gs) p)) x =
             (if x = c then count_list (hand (players gs p)) x - 1
              else count_list (hand (players gs p)) x))) \<and>
   (c \<notin> set (hand (players gs p)) \<longrightarrow>
      discard_card p c gs = gs\<lparr>stdout := stdout gs @ [ErrorNotInHand p c]\<rparr>)"
  by (auto simp: discard_card_def update_player_def print_def count_list_remove1
      length_remove1 length_pred_in_set)

text \<open>
  Player1 holds the cards 3, 5, 3: discarding 5 leaves 3, 3 and puts 5 on the discard pile;
  discarding 7, which is not held, only prints the error.
\<close>

theorem discard_card_spec_witness:
  "hand (players (discard_card Player1 5 (with_hand Player1 [3, 5, 3] empty_game)) Player1)
     = [3, 3] \<and>
   discard_pile (players (discard_card Player1 5 (with_hand Player1 [3, 5, 3] empty_game)) Player1)
     = [5] \<and>
   stdout (discard_card Player1 5 (with_hand Player1 [3, 5, 3] empty_game))
     = [Discards Player1 5] \<and>
   hand (players (discard_card Player1 7 (with_hand Player1 [3, 5, 3] empty_game)) Player1)
     = [3, 5, 3] \<and>
   discard_pile (players (discard_card Player1 7 (with_hand Player1 [3, 5, 3] empty_game)) Player1)
     = [] \<and>
   stdout (discard_card Player1 7 (with_hand Player1 [3, 5, 3] empty_game))
     = [ErrorNotInHand Player1 7]"
  using discard_card_spec [of 5 "with_hand Player1 [3, 5, 3] empty_game" Player1]
    discard_card_spec [of 7 "with_hand Player1 [3, 5, 3] empty_game" Player1]
  by (simp add: with_hand_def empty_game_def Player_init_def update_player_def)

section \<open>Wall capacity\<close>

lemma place_card_in_wall_bound:
  "length (wall (players gs q)) \<le> 14 \<Longrightarrow>
   length (wall (players (place_card_in_wall p c gs) q)) \<le> 14"
  by (auto simp: place_card_in_wall_def)

lemma place_cards_in_wall_bound:
  "\<forall>q. length (wall (players gs q)) \<le> 14 \<Longrightarrow>
   length (wall (players (place_cards_in_wall pcs gs) q)) \<le> 14"
proof (induction pcs arbitrary: gs)
  case Nil
  then show ?case by (simp add: place_cards_in_wall_def)
next
  case (Cons pc pcs)
  obtain p c where pc: "pc = (p, c)" by (cases pc)
  have "\<forall>q. length (wall (players (place_card_in_wall p c gs) q)) \<le> 14"
    using Cons.prems place_card_in_wall_bound by blast
  from Cons.IH [OF this] show ?case
    by (simp add: place_cards_in_wall_def pc)
qed

text \<open>
  C5. \<^verbatim>\<open>place_card_in_wall\<close> appends the card to the wall and turns it face down when
  the wall holds fewer than 14 cards; otherwise it appends the card to the same player's
  discard pile and leaves the wall and the card as they are. Both branches return normally
  (the operation has no raising branch). So a wall of at most 14 cards never grows beyond 14
  under any sequence of placements.
\<close>

theorem place_card_in_wall_spec:
  "(length (wall (players gs p)) < 14 \<longrightarrow>
      place_card_in_wall p c gs =
        gs\<lparr>cards := (cards gs)(c := (cards gs c)\<lparr>is_face_down := True\<rparr>),
           players := (players gs)(p := (players gs p)\<lparr>wall := wall (players gs p) @ [c]\<rparr>),
           stdout := stdout gs @ [PlacesInWall p]\<rparr>) \<and>
   (\<not> length (wall (players gs p)) < 14 \<longrightarrow>
      place_card_in_wall p c gs =
        gs\<lparr>players := (players gs)(p := (players gs p)
                \<lparr>discard_pile := discard_pile (players gs p) @ [c]\<rparr>),
           stdout := stdout gs @ [WallFull]\<rparr>) \<and>
   ((\<forall>q. length (wall (players gs q)) \<le> 14) \<longrightarrow>
      (\<forall>q. length (wall (players (place_cards_in_wall pcs gs) q)) \<le> 14))"
  using place_cards_in_wall_bound
  by (auto simp: place_card_in_wall_def update_player_def update_card_def print_def)

text \<open>
  Player1 places the cards 0 .. 14 into an empty wall: the first fourteen stay in the wall,
  the fifteenth goes to the discard pile.
\<close>

theorem place_card_in_wall_spec_witness:
  "wall (players (place_card_in_wall Player1 14
       (with_wall Player1 [0, 1, 2, 3, 4, 5, 6, 7, 8, 9, 10, 11, 12, 13] empty_game)) Player1)
     = [0, 1, 2, 3, 4, 5, 6, 7, 8, 9, 10, 11, 12, 13] \<and>
   discard_pile (players (place_card_in_wall Player1 14
       (with_wall Player1 [0, 1, 2, 3, 4, 5, 6, 7, 8, 9, 10, 11, 12, 13] empty_game)) Player1)
     = [14] \<and>
   wall (players (place_card_in_wall Player1 13
       (with_wall Player1 [0, 1, 2, 3, 4, 5, 6, 7, 8, 9, 10, 11, 12] empty_game)) Player1)
     = [0, 1, 2, 3, 4, 5, 6, 7, 8, 9, 10, 11, 12, 13] \<and>
   is_face_down (cards (place_card_in_wall Player1 13
       (with_wall Player1 [0, 1, 2, 3, 4, 5, 6, 7, 8, 9, 10, 11, 12] empty_game)) 13) \<and>
   length (wall (players (place_cards_in_wall [(Player1, 20), (Player2, 21), (Player1, 22)]
       (with_wall Player1 [0, 1, 2, 3, 4, 5, 6, 7, 8, 9, 10, 11, 12] empty_game)) Player1))
     \<le> 14"
  using
    place_card_in_wall_spec [of "with_wall Player1 [0, 1, 2, 3, 4, 5, 6, 7, 8, 9, 10, 11, 12, 13]
       empty_game" Player1 14 "[]"]
    place_card_in_wall_spec [of "with_wall Player1 [0, 1, 2, 3, 4, 5, 6, 7, 8, 9, 10, 11, 12]
       empty_game" Player1 13 "[(Player1, 20), (Player2, 21), (Player1, 22)]"]
  by (simp add: with_wall_def empty_game_def Player_init_def update_player_def
      place_cards_in_wall_def place_card_in_wall_def)

section \<open>Damage to a card\<close>

lemma cards_destroy_card: "cards (destroy_card c gs) = cards gs"
  by (simp add: destroy_card_def Let_def split: option.splits)

lemma stdout_destroy_card: "stdout (destroy_card c gs) = stdout gs @ [IsDestroyed c]"
  by (simp add: destroy_card_def Let_def split: option.splits)

lemma take_damage_points:
  "damage_points (cards (take_damage c d gs) c) = damage_points (cards gs c) - d"
  by (simp add: take_damage_def Let_def cards_destroy_card)

lemma take_damage_stdout:
  "stdout (take_damage c d gs) =
     stdout gs @ (if damage_points (cards gs c) - d \<le> 0 then [IsDestroyed c] else [])"
  by (simp add: take_damage_def Let_def stdout_destroy_card)

lemma take_damages_snoc:
  "take_damages c (ds @ [d]) gs = take_damage c d (take_damages c ds gs)"
  by (simp add: take_damages_def)

lemma take_damages_points:
  "damage_points (cards (take_damages c ds gs) c) = damage_points (cards gs c) - sum_list ds"
  by (induction ds rule: rev_induct)
     (simp_all add: take_damages_snoc take_damage_points, simp add: take_damages_def)

lemma prefix_hits_snoc:
  "prefix_hits a (ds @ [d]) = prefix_hits a ds + (if a - sum_list ds - d \<le> 0 then 1 else 0)"
proof -
  have "filter (\<lambda>n. a - sum_list (take (Suc n) (ds @ [d])) \<le> 0) [0..<length ds] =
        filter (\<lambda>n. a - sum_list (take (Suc n) ds) \<le> 0) [0..<length ds]"
    by (rule filter_cong) auto
  then show ?thesis
    by (simp add: prefix_hits_def)
qed

lemma take_damages_stdout:
  "stdout (take_damages c ds gs) =
     stdout gs @ replicate (prefix_hits (damage_points (cards gs c)) ds) (IsDestroyed c)"
proof (induction ds rule: rev_induct)
  case Nil
  show ?case by (simp add: take_damages_def prefix_hits_def)
next
  case (snoc d ds)
  show ?case
    by (simp add: take_damages_snoc take_damage_stdout take_damages_points snoc.IH
        prefix_hits_snoc replicate_append_same)
qed

text \<open>
  C1, as the code has it. After any sequence of \<^verbatim>\<open>take_damage\<close> calls on a card its
  damage points are the initial points minus the sum of the amounts, with no clamping. The
  destruction routine runs once for every call that leaves the damage points at or below
  zero: \<open>IsDestroyed\<close> is printed as many times as there are such calls
  (\<open>prefix_hits\<close>). In particular a
  call with a non-negative amount on a card whose points are already at or below zero runs
  the destruction routine again.
\<close>

theorem take_damage_sequence:
  "damage_points (cards (take_damages c ds gs) c) = damage_points (cards gs c) - sum_list ds \<and>
   stdout (take_damages c ds gs) =
     stdout gs @ replicate (prefix_hits (damage_points (cards gs c)) ds) (IsDestroyed c) \<and>
   (damage_points (cards gs c) \<le> 0 \<and> 0 \<le> d \<longrightarrow>
      stdout (take_damage c d gs) = stdout gs @ [IsDestroyed c])"
  by (simp add: take_damages_points take_damages_stdout take_damage_stdout)

lemma prefix_hits_examples: "prefix_hits 3 [1, 1, 1, 2] = 2" "prefix_hits 3 [1, 1, 1] = 1"
  by code_simp+

text \<open>
  A card with 3 damage points takes 1, 1, 1, 2: nothing is printed for the first two
  calls, destruction runs at the third and again at the fourth, and the points end at -2.
\<close>

theorem take_damage_sequence_witness:
  "damage_points (cards (take_damages 0 [1, 1, 1, 2]
      (with_card 0 (plain_card\<lparr>damage_points := 3\<rparr>) empty_game)) 0) = - 2 \<and>
   stdout (take_damages 0 [1, 1, 1, 2]
      (with_card 0 (plain_card\<lparr>damage_points := 3\<rparr>) empty_game))
     = [IsDestroyed 0, IsDestroyed 0] \<and>
   stdout (take_damage 0 2 (take_damages 0 [1, 1, 1]
      (with_card 0 (plain_card\<lparr>damage_points := 3\<rparr>) empty_game)))
     = [IsDestroyed 0, IsDestroyed 0]"
  using
    take_damage_sequence [of 0 "[1, 1, 1, 2]"
      "with_card 0 (plain_card\<lparr>damage_points := 3\<rparr>) empty_game" 0]
    take_damage_sequence [of 0 "[1, 1, 1]"
      "with_card 0 (plain_card\<lparr>damage_points := 3\<rparr>) empty_game" 2]
  by (simp add: with_card_def empty_game_def take_damages_def take_damage_def destroy_card_def
      plain_card_def Card_init_def prefix_hits_examples)

text \<open>
  The claim as the specification words it fails: one call with amount 3 on a card with 1
  damage point leaves -2 points, and two calls with amount 1 run the destruction routine
  twice.
\<close>

theorem take_damage_clamped_once_counterexample:
  "damage_points (cards (take_damage 0 3 empty_game) 0) = - 2 \<and>
   stdout (take_damage 0 1 (take_damage 0 1 empty_game)) = [IsDestroyed 0, IsDestroyed 0]"
  by (simp add: empty_game_def take_damage_def destroy_card_def plain_card_def Card_init_def)

section \<open>Melee attacks\<close>

lemma select_loop_eof:
  "\<not> list_ex (is_index (length targets)) ins \<Longrightarrow>
   select_melee_target_loop targets ins gs = Raised EOFError gs"
  by (induction targets ins gs rule: select_melee_target_loop.induct)
     (auto simp: is_index_def)

lemma select_loop_returns:
  "list_ex (is_index (length targets)) ins \<Longrightarrow>
   \<exists>t rest. t \<in> set targets \<and>
     select_melee_target_loop targets ins gs = Returned (Some t, rest) gs"
  by (induction targets ins gs rule: select_melee_target_loop.induct)
     (auto simp: is_index_def)

lemma action_point_apply_damage:
  "action_point (cards (apply_damage_to_target a t gs) c) = action_point (cards gs c)"
  by (simp add: apply_damage_to_target_def Let_def)

text \<open>
  C6, as the code has it. A card with no action point left is turned away: nothing but the
  printed line changes and no input is read. A card with an action point and no target to
  attack (the opponent's field zone and wall are both empty) is turned away as well, and
  keeps its action point. When there are targets, the attack returns as soon as the input
  holds a valid index; it applies the damage to one of the offered targets and then takes
  exactly one action point from the attacker, whether or not the target was destroyed. With
  no valid index in the input the read fails with EOFError and nothing has changed.
\<close>

theorem perform_selected_melee_action_spec:
  "(action_point (cards gs c) \<le> 0 \<longrightarrow>
      perform_selected_melee_action p c ins gs =
        Returned ins (print (NoActionPointsLeft c) gs)) \<and>
   (0 < action_point (cards gs c) \<and> available_targets p gs = [] \<longrightarrow>
      perform_selected_melee_action p c ins gs =
        Returned ins (print NoValidTarget (print NoAvailableTargets gs))) \<and>
   (0 < action_point (cards gs c) \<and> available_targets p gs \<noteq> [] \<and>
    list_ex (is_index (length (available_targets p gs))) ins \<longrightarrow>
      (\<exists>t rest. t \<in> set (available_targets p gs) \<and>
         perform_selected_melee_action p c ins gs =
           Returned rest
             (update_card c (\<lambda>k. k\<lparr>action_point := action_point k - 1\<rparr>)
               (apply_damage_to_target c t gs)) \<and>
         action_point (cards (state_of (perform_selected_melee_action p c ins gs)) c) =
           action_point (cards gs c) - 1)) \<and>
   (0 < action_point (cards gs c) \<and> available_targets p gs \<noteq> [] \<and>
    \<not> list_ex (is_index (length (available_targets p gs))) ins \<longrightarrow>
      perform_selected_melee_action p c ins gs = Raised EOFError gs)"
proof (intro conjI impI)
  assume "action_point (cards gs c) \<le> 0"
  then show "perform_selected_melee_action p c ins gs =
        Returned ins (print (NoActionPointsLeft c) gs)"
    by (simp add: perform_selected_melee_action_def)
next
  assume "0 < action_point (cards gs c) \<and> available_targets p gs = []"
  then show "perform_selected_melee_action p c ins gs =
        Returned ins (print NoValidTarget (print NoAvailableTargets gs))"
    by (simp add: perform_selected_melee_action_def select_melee_target_def)
next
  assume a: "0 < action_point (cards gs c) \<and> available_targets p gs \<noteq> [] \<and>
    list_ex (is_index (length (available_targets p gs))) ins"
  then obtain t rest where t: "t \<in> set (available_targets p gs)"
    and l: "select_melee_target_loop (available_targets p gs) ins gs = Returned (Some t, rest) gs"
    using select_loop_returns by blast
  have "perform_selected_melee_action p c ins gs =
           Returned rest
             (update_card c (\<lambda>k. k\<lparr>action_point := action_point k - 1\<rparr>)
               (apply_damage_to_target c t gs))"
    using a l by (simp add: perform_selected_melee_action_def select_melee_target_def)
  then show "\<exists>t rest. t \<in> set (available_targets p gs) \<and>
         perform_selected_melee_action p c ins gs =
           Returned rest
             (update_card c (\<lambda>k. k\<lparr>action_point := action_point k - 1\<rparr>)
               (apply_damage_to_target c t gs)) \<and>
         action_point (cards (state_of (perform_selected_melee_action p c ins gs)) c) =
           action_point (cards gs c) - 1"
    using t by (auto simp: state_of_def action_point_apply_damage)
next
  assume "0 < action_point (cards gs c) \<and> available_targets p gs \<noteq> [] \<and>
    \<not> list_ex (is_index (length (available_targets p gs))) ins"
  then show "perform_selected_melee_action p c ins gs = Raised EOFError gs"
    by (simp add: perform_selected_melee_action_def select_melee_target_def select_loop_eof)
qed

lemma melee_example_targets:
  "available_targets Player1 melee_example = [1]"
  "available_targets Player1 (with_field_zone Player1 [0] empty_game) = []"
  by (simp_all add: melee_example_def available_targets_def opponent_def with_wall_def
      with_field_zone_def empty_game_def Player_init_def)

text \<open>
  In the example the attack on the wall card costs the attacker its one action point; an
  input without a valid index ends in EOFError with the state as it was; without targets,
  and without action points, only a line is printed.
\<close>

theorem perform_selected_melee_action_spec_witness:
  "action_point (cards melee_example 0) = 1 \<and>
   action_point (cards (state_of
      (perform_selected_melee_action Player1 0 [Text ''x'', Number 0] melee_example)) 0) = 0 \<and>
   perform_selected_melee_action Player1 0 [Text ''x'', Number 5] melee_example
     = Raised EOFError melee_example \<and>
   perform_selected_melee_action Player1 0 [Number 0]
       (with_field_zone Player1 [0] empty_game)
     = Returned [Number 0]
        (print NoValidTarget (print NoAvailableTargets (with_field_zone Player1 [0] empty_game))) \<and>
   perform_selected_melee_action Player1 0 [Number 0]
       (with_card 0 (plain_card\<lparr>action_point := 0\<rparr>) melee_example)
     = Returned [Number 0]
        (print (NoActionPointsLeft 0) (with_card 0 (plain_card\<lparr>action_point := 0\<rparr>) melee_example))"
  using
    perform_selected_melee_action_spec [of melee_example 0 Player1 "[Text ''x'', Number 0]"]
    perform_selected_melee_action_spec [of melee_example 0 Player1 "[Text ''x'', Number 5]"]
    perform_selected_melee_action_spec [of "with_field_zone Player1 [0] empty_game" 0 Player1
      "[Number 0]"]
    perform_selected_melee_action_spec
      [of "with_card 0 (plain_card\<lparr>action_point := 0\<rparr>) melee_example" 0 Player1 "[Number 0]"]
  by (simp add: melee_example_targets is_index_def)
     (simp add: melee_example_def with_wall_def with_field_zone_def empty_game_def
      plain_card_def Card_init_def with_card_def)

text \<open>
  The claim as the specification words it fails when no target is available: the attacker
  has an action point, the call returns, and the action point is still there.
\<close>

theorem melee_no_target_counterexample:
  "0 < action_point (cards (with_field_zone Player1 [0] empty_game) 0) \<and>
   returned (perform_selected_melee_action Player1 0 [] (with_field_zone Player1 [0] empty_game)) \<and>
   action_point (cards (state_of
      (perform_selected_melee_action Player1 0 [] (with_field_zone Player1 [0] empty_game))) 0)
     = action_point (cards (with_field_zone Player1 [0] empty_game) 0)"
  by (simp add: perform_selected_melee_action_def select_melee_target_def melee_example_targets
      returned_def state_of_def)
     (simp add: with_field_zone_def empty_game_def plain_card_def Card_init_def)

section \<open>One container per card\<close>

text \<open>
  C2 fails on the melee path. Player1's card 0 attacks Player2's wall card 1, which has one
  damage point. The destroyed card is appended to a discard pile and removed only from a
  field zone, so it stays in Player2's wall. With the attacker's \<^verbatim>\<open>player\<close> attribute
  as the constructor leaves it (\<^verbatim>\<open>None\<close>) the discard pile is Player1's; after
  \<^verbatim>\<open>set_player\<close> it is Player2's. Either way the card is in two containers.
  \<^verbatim>\<open>Card.destroy_card\<close> does the same to a wall card that belongs to a player: after
  \<^verbatim>\<open>take_damage\<close> the card is in the wall and in the discard pile.
\<close>

theorem melee_wall_target_stays_in_wall:
  "wall (players (state_of
      (perform_selected_melee_action Player1 0 [Number 0] melee_example)) Player2) = [1] \<and>
   discard_pile (players (state_of
      (perform_selected_melee_action Player1 0 [Number 0] melee_example)) Player1) = [1] \<and>
   wall (players (state_of
      (perform_selected_melee_action Player1 0 [Number 0]
         (set_player 0 Player1 melee_example))) Player2) = [1] \<and>
   discard_pile (players (state_of
      (perform_selected_melee_action Player1 0 [Number 0]
         (set_player 0 Player1 melee_example))) Player2) = [1] \<and>
   wall (players (take_damage 1 1 (set_player 1 Player2 melee_example)) Player2) = [1] \<and>
   discard_pile (players (take_damage 1 1 (set_player 1 Player2 melee_example)) Player2) = [1]"
  by (simp add: take_damage_def destroy_card_def perform_selected_melee_action_def select_melee_target_def available_targets_def
      apply_damage_to_target_def opponent_def state_of_def set_player_def
      melee_example_def with_wall_def with_field_zone_def empty_game_def Player_init_def
      plain_card_def Card_init_def Let_def)

section \<open>Ranged attacks without a damage source\<close>

lemma find_None_list_ex: "\<not> list_ex P xs \<Longrightarrow> find P xs = None"
  by (induction xs) auto

lemma check_source_blocked:
  "\<not> holds_source p c gs \<Longrightarrow> check_source_of_damage c p gs = (False, gs)"
  by (auto simp: holds_source_def check_source_of_damage_def find_None_list_ex
      split: option.splits)

lemma ranged_characters_print [simp]:
  "ranged_characters p (print e gs) = ranged_characters p gs"
  by (simp add: ranged_characters_def)

lemma holds_source_print [simp]: "holds_source p c (print e gs) = holds_source p c gs"
  by (simp add: holds_source_def split: option.splits)

lemma blocked_result_simps [simp]:
  "blocked_result (Returned v gs) gs"
  "blocked_result (Returned v (print e gs)) gs"
  "blocked_result (Raised EOFError gs) gs"
  "blocked_result r (print e gs) = blocked_result r gs"
  by (simp_all add: blocked_result_def same_game_def state_of_def returned_def)


lemma ranged_loop_blocked:
  "\<forall>c \<in> set (ranged_characters p gs). \<not> holds_source p c gs \<Longrightarrow>
   blocked_result (handle_ranged_actions_loop p taken ins gs) gs"
proof (induction p taken ins gs rule: handle_ranged_actions_loop.induct)
  case (1 p taken gs)
  then show ?case by simp
next
  case (2 p taken s ins gs)
  then show ?case by simp
next
  case (3 p taken s ins gs)
  then show ?case by simp
next
  case (4 p taken i ins gs)
  show ?case
  proof (cases "ranged_characters p gs \<noteq> [] \<and> 0 \<le> i \<and> i < int (length (ranged_characters p gs))")
    case True
    let ?c = "ranged_characters p gs ! nat i"
    have "?c \<in> set (ranged_characters p gs)" using True by (simp add: nat_less_iff)
    then have blocked: "check_source_of_damage ?c p gs = (False, gs)"
      using "4.prems" check_source_blocked by blast
    have "\<forall>c \<in> set (ranged_characters p (print InsufficientSource gs)).
            \<not> holds_source p c (print InsufficientSource gs)"
      using "4.prems" by simp
    have "blocked_result (handle_ranged_actions_loop p taken ins (print InsufficientSource gs))
            (print InsufficientSource gs)"
      apply (rule "4.IH"(2) [OF _ _ refl blocked [symmetric]])
      using True \<open>\<forall>c \<in> set (ranged_characters p (print InsufficientSource gs)).
            \<not> holds_source p c (print InsufficientSource gs)\<close> by auto
    then show ?thesis using True blocked
      by simp
  next
    case False
    then show ?thesis
      using "4.IH"(3) "4.prems"
      by auto
  qed
qed

text \<open>
  C7. When the attacking player's hand holds no card named as the damage source the
  attacking card needs, \<^verbatim>\<open>check_source_of_damage\<close> answers False and changes nothing;
  \<^verbatim>\<open>handle_ranged_actions\<close> then prints the refusal and goes back to the prompt without
  calling the attack. So if no selectable ranged character has its source in hand, the whole
  phase leaves every card (damage points, action points) and every zone (the hand included)
  as they were, whatever the input is.
\<close>

theorem ranged_attack_blocked_without_source:
  "(\<not> holds_source p c gs \<longrightarrow> check_source_of_damage c p gs = (False, gs)) \<and>
   (0 \<le> i \<and> i < int (length (ranged_characters p gs)) \<and>
    \<not> holds_source p (ranged_characters p gs ! nat i) gs \<longrightarrow>
      handle_ranged_actions_loop p taken (Number i # ins) gs =
        handle_ranged_actions_loop p taken ins (print InsufficientSource gs)) \<and>
   ((\<forall>c \<in> set (ranged_characters p gs). \<not> holds_source p c gs) \<longrightarrow>
      blocked_result (handle_ranged_actions p ins gs) gs)"
proof (intro conjI impI)
  assume "\<not> holds_source p c gs"
  then show "check_source_of_damage c p gs = (False, gs)"
    by (rule check_source_blocked)
next
  assume a: "0 \<le> i \<and> i < int (length (ranged_characters p gs)) \<and>
    \<not> holds_source p (ranged_characters p gs ! nat i) gs"
  then have "ranged_characters p gs \<noteq> []" by auto
  with a show "handle_ranged_actions_loop p taken (Number i # ins) gs =
        handle_ranged_actions_loop p taken ins (print InsufficientSource gs)"
    by (simp add: check_source_blocked)
next
  assume "\<forall>c \<in> set (ranged_characters p gs). \<not> holds_source p c gs"
  then show "blocked_result (handle_ranged_actions p ins gs) gs"
    by (simp add: handle_ranged_actions_def ranged_loop_blocked)
qed

text \<open>In the example the player selects character 0 and then passes.\<close>

lemma ranged_example_facts:
  "ranged_characters Player1 ranged_example = [0]"
  "\<not> holds_source Player1 0 ranged_example"
  by (simp_all add: ranged_example_def ranged_characters_def holds_source_def damage_source_def
      with_hand_def with_battlement_zone_def with_card_def empty_game_def Player_init_def
      plain_card_def Card_init_def)

theorem ranged_attack_blocked_without_source_witness:
  "check_source_of_damage 0 Player1 ranged_example = (False, ranged_example) \<and>
   handle_ranged_actions Player1 [Number 0, Text ''pass''] ranged_example =
     Returned [] (print InsufficientSource ranged_example) \<and>
   blocked_result (handle_ranged_actions Player1 [Number 0, Text ''pass''] ranged_example)
     ranged_example \<and>
   hand (players (state_of
     (handle_ranged_actions Player1 [Number 0, Text ''pass''] ranged_example)) Player1) = [5] \<and>
   action_point (cards (state_of
     (handle_ranged_actions Player1 [Number 0, Text ''pass''] ranged_example)) 0) = 2"
  using ranged_attack_blocked_without_source
          [of Player1 0 ranged_example 0 False "[Text ''pass'']"]
        ranged_attack_blocked_without_source
          [of Player1 0 ranged_example 0 False "[Number 0, Text ''pass'']"]
  by (simp add: ranged_example_facts handle_ranged_actions_def state_of_def)
     (simp add: ranged_example_def with_hand_def with_battlement_zone_def with_card_def
       empty_game_def Player_init_def Card_init_def)

section \<open>Deck size and the initial deal\<close>

lemma draw_many_enough:
  "n \<le> length deck \<Longrightarrow>
   draw_many n deck = (map Some (take n (rev deck)), take (length deck - n) deck)"
proof (induction n arbitrary: deck)
  case 0
  then show ?case by simp
next
  case (Suc n)
  then obtain xs x where deck: "deck = xs @ [x]"
    by (cases deck rule: rev_cases) auto
  with Suc.prems have "n \<le> length xs" by simp
  from Suc.IH [OF this] show ?case
    by (simp add: deck draw_def)
qed

lemma length_Deck_init:
  "is_shuffle sh \<Longrightarrow> length (fst (Deck_init catalog sh free store)) = 2 * length catalog + 2"
  by (simp add: Deck_init_def Let_def is_shuffle_def)

lemma map_the_Some: "map the (map Some xs) = xs"
  by (induction xs) auto

lemma no_None_map_Some: "\<not> list_ex (\<lambda>d. d = None) (map Some xs)"
  by (simp add: list_ex_iff)

lemma deal_enough:
  assumes "decks gs (player_name (players gs p)) = Some deck" "20 \<le> length deck"
  shows "deal_initial_cards p gs =
     Some (Returned ()
       (update_player p
          (\<lambda>z. z\<lparr>hand := drop 10 (take 20 (rev deck)), wall := take 10 (rev deck)\<rparr>)
          (gs\<lparr>decks := (decks gs)(player_name (players gs p) \<mapsto> take (length deck - 20) deck)\<rparr>)))"
  using assms
  by (simp add: deal_initial_cards_def draw_many_enough map_the_Some no_None_map_Some
      del: draw_many.simps)

lemma deck_of_deal_same:
  assumes "decks gs (player_name (players gs p)) = Some deck" "20 \<le> length deck"
    and "deal_initial_cards p gs = Some (Returned () gs')"
  shows "deck_of p gs' = take (length deck - 20) deck"
    "hand (players gs' p) = drop 10 (take 20 (rev deck))"
    "wall (players gs' p) = take 10 (rev deck)"
    "q \<noteq> p \<Longrightarrow> players gs' q = players gs q"
    "player_name (players gs' q) = player_name (players gs q)"
    "nm \<noteq> player_name (players gs p) \<Longrightarrow> decks gs' nm = decks gs nm"
  using assms(3) unfolding deal_enough [OF assms(1,2)]
  by (auto simp: deck_of_def)

lemma count_list_upt: "count_list [a..<b] r = (if a \<le> r \<and> r < b then 1 else 0)"
  by (induction b) auto

lemma count_Deck_init:
  "is_shuffle sh \<Longrightarrow>
   count_list (fst (Deck_init catalog sh free store)) r =
     (if free \<le> r \<and> r \<le> free + length catalog then 2 else 0)"
  by (auto simp: Deck_init_def Let_def is_shuffle_def count_list_upt)

lemma store_Deck_init:
  "i < length catalog \<Longrightarrow>
   snd (snd (Deck_init catalog sh free store)) (free + i) = catalog ! i"
  "snd (snd (Deck_init catalog sh free store)) (free + length catalog) = create_joker_card"
  by (simp_all add: Deck_init_def Let_def)

lemma joker_card_fields:
  "name create_joker_card = ''Joker''"
  "cast_ability create_joker_card = ''Uber Damage''"
  "attack_type create_joker_card = ''Ranged''"
  "attack_value create_joker_card = 2"
  "action_point create_joker_card = 0"
  "damage_points create_joker_card = 1"
  "\<not> is_a_character create_joker_card"
  by (simp_all add: create_joker_card_def Card_init_def)

lemma GameState_init_deal:
  assumes sh: "is_shuffle shuffle1" "is_shuffle shuffle2"
    and len: "length catalog1 = 52" "length catalog2 = 52"
    and names: "name1 \<noteq> name2"
  shows "\<exists>gs. GameState_init name1 name2 catalog1 catalog2 shuffle1 shuffle2
                = Some (Returned () gs) \<and>
            (\<forall>p. length (deck_of p gs) = 86 \<and> length (wall (players gs p)) = 10 \<and>
                 length (hand (players gs p)) = 10)"
proof -
  obtain deck1 free1 store1 where
    D1: "Deck_init catalog1 shuffle1 0 (\<lambda>_. plain_card) = (deck1, free1, store1)"
    by (cases "Deck_init catalog1 shuffle1 0 (\<lambda>_. plain_card)") auto
  obtain deck2 free2 store2 where
    D2: "Deck_init catalog2 shuffle2 free1 store1 = (deck2, free2, store2)"
    by (cases "Deck_init catalog2 shuffle2 free1 store1") auto
  have l1: "length deck1 = 106"
    using length_Deck_init [OF sh(1), of catalog1 0 "\<lambda>_. plain_card"] len(1) D1 by simp
  have l2: "length deck2 = 106"
    using length_Deck_init [OF sh(2), of catalog2 free1 store1] len(2) D2 by simp
  define gs0 where "gs0 =
     \<lparr>cards = store2,
      players = (\<lambda>p. case p of Player1 \<Rightarrow> Player_init name1 | Player2 \<Rightarrow> Player_init name2),
      decks = (Map.empty(name1 \<mapsto> deck1))(name2 \<mapsto> deck2),
      stdout = []\<rparr>"
  have init: "GameState_init name1 name2 catalog1 catalog2 shuffle1 shuffle2 =
     assign_initial_cards gs0"
    by (simp add: GameState_init_def D1 D2 gs0_def)
  have k1: "decks gs0 (player_name (players gs0 Player1)) = Some deck1"
    using names by (simp add: gs0_def Player_init_def)
  have g1: "20 \<le> length deck1" using l1 by simp
  define gs1 where "gs1 =
     update_player Player1
       (\<lambda>z. z\<lparr>hand := drop 10 (take 20 (rev deck1)), wall := take 10 (rev deck1)\<rparr>)
       (gs0\<lparr>decks := (decks gs0)(player_name (players gs0 Player1) \<mapsto>
          take (length deck1 - 20) deck1)\<rparr>)"
  have d1: "deal_initial_cards Player1 gs0 = Some (Returned () gs1)"
    unfolding gs1_def by (rule deal_enough [OF k1 g1])
  have k2: "decks gs1 (player_name (players gs1 Player2)) = Some deck2"
    using names by (auto simp: gs1_def gs0_def Player_init_def update_player_def)
  have g2: "20 \<le> length deck2" using l2 by simp
  define gs2 where "gs2 =
     update_player Player2
       (\<lambda>z. z\<lparr>hand := drop 10 (take 20 (rev deck2)), wall := take 10 (rev deck2)\<rparr>)
       (gs1\<lparr>decks := (decks gs1)(player_name (players gs1 Player2) \<mapsto>
          take (length deck2 - 20) deck2)\<rparr>)"
  have d2: "deal_initial_cards Player2 gs1 = Some (Returned () gs2)"
    unfolding gs2_def by (rule deal_enough [OF k2 g2])
  have res: "GameState_init name1 name2 catalog1 catalog2 shuffle1 shuffle2 =
     Some (Returned () gs2)"
    by (simp add: init assign_initial_cards_def d1 d2)
  have p1: "length (deck_of Player1 gs2) = 86 \<and> length (wall (players gs2 Player1)) = 10 \<and>
            length (hand (players gs2 Player1)) = 10"
    using names l1
    by (auto simp: gs2_def gs1_def gs0_def deck_of_def Player_init_def update_player_def)
  have p2: "length (deck_of Player2 gs2) = 86 \<and> length (wall (players gs2 Player2)) = 10 \<and>
            length (hand (players gs2 Player2)) = 10"
    using names l2
    by (auto simp: gs2_def gs1_def gs0_def deck_of_def Player_init_def update_player_def)
  have "\<forall>p. length (deck_of p gs2) = 86 \<and> length (wall (players gs2 p)) = 10 \<and>
            length (hand (players gs2 p)) = 10"
  proof
    fix p show "length (deck_of p gs2) = 86 \<and> length (wall (players gs2 p)) = 10 \<and>
            length (hand (players gs2 p)) = 10"
      using p1 p2 by (cases p) simp_all
  qed
  with res show ?thesis by blast
qed

text \<open>
  C8. A deck built from a catalog holds every catalog card twice and one more card twice,
  so twice the catalog's size plus two cards: 106 for a catalog of 52. That one more card
  is the Joker: its name is Joker, its cast ability Uber Damage, it attacks at range with
  value 2, has no action point and one damage point, and is no character. A fresh game of two
  players with different names and 52-card catalogs is set up without error, and after the
  initial deal every player has 10 cards in the wall, 10 in the hand and 86 in the deck.
\<close>

theorem fresh_game_deck_sizes:
  "(is_shuffle sh \<longrightarrow>
      length (fst (Deck_init catalog sh free store)) = 2 * length catalog + 2 \<and>
      (\<forall>r. count_list (fst (Deck_init catalog sh free store)) r =
             (if free \<le> r \<and> r \<le> free + length catalog then 2 else 0)) \<and>
      (\<forall>i < length catalog.
         snd (snd (Deck_init catalog sh free store)) (free + i) = catalog ! i) \<and>
      snd (snd (Deck_init catalog sh free store)) (free + length catalog)
        = create_joker_card \<and>
      name (snd (snd (Deck_init catalog sh free store)) (free + length catalog)) = ''Joker'' \<and>
      cast_ability (snd (snd (Deck_init catalog sh free store)) (free + length catalog))
        = ''Uber Damage'' \<and>
      attack_type (snd (snd (Deck_init catalog sh free store)) (free + length catalog))
        = ''Ranged'' \<and>
      attack_value (snd (snd (Deck_init catalog sh free store)) (free + length catalog)) = 2 \<and>
      action_point (snd (snd (Deck_init catalog sh free store)) (free + length catalog)) = 0 \<and>
      damage_points (snd (snd (Deck_init catalog sh free store)) (free + length catalog)) = 1 \<and>
      \<not> is_a_character
          (snd (snd (Deck_init catalog sh free store)) (free + length catalog))) \<and>
   (is_shuffle sh \<and> length catalog = 52 \<longrightarrow>
      length (fst (Deck_init catalog sh free store)) = 106) \<and>
   (is_shuffle shuffle1 \<and> is_shuffle shuffle2 \<and> length catalog1 = 52 \<and>
    length catalog2 = 52 \<and> name1 \<noteq> name2 \<longrightarrow>
      (\<exists>gs. GameState_init name1 name2 catalog1 catalog2 shuffle1 shuffle2
                = Some (Returned () gs) \<and>
            (\<forall>p. length (deck_of p gs) = 86 \<and> length (wall (players gs p)) = 10 \<and>
                 length (hand (players gs p)) = 10)))"
  using GameState_init_deal [of shuffle1 shuffle2 catalog1 catalog2 name1 name2]
  by (simp add: length_Deck_init count_Deck_init store_Deck_init joker_card_fields)

lemma is_shuffle_rev: "is_shuffle rev"
  by (simp add: is_shuffle_def)

text \<open>
  A catalog of 52 cards (the plain card 52 times), with reversal as the rearrangement: the
  card at reference 52 is the Joker and is in the deck twice, as is the last catalog card at
  reference 51.
\<close>

theorem fresh_game_deck_sizes_witness:
  "is_shuffle rev \<and> length (replicate 52 plain_card) = 52 \<and>
   length (fst (Deck_init (replicate 52 plain_card) rev 0 (\<lambda>_. plain_card))) = 106 \<and>
   count_list (fst (Deck_init (replicate 52 plain_card) rev 0 (\<lambda>_. plain_card))) 52 = 2 \<and>
   name (snd (snd (Deck_init (replicate 52 plain_card) rev 0 (\<lambda>_. plain_card))) 52) = ''Joker'' \<and>
   \<not> is_a_character
       (snd (snd (Deck_init (replicate 52 plain_card) rev 0 (\<lambda>_. plain_card))) 52) \<and>
   count_list (fst (Deck_init (replicate 52 plain_card) rev 0 (\<lambda>_. plain_card))) 51 = 2 \<and>
   name (snd (snd (Deck_init (replicate 52 plain_card) rev 0 (\<lambda>_. plain_card))) 51)
     = ''2 of Hearts'' \<and>
   (\<exists>gs. GameState_init ''Player1'' ''Player2'' (replicate 52 plain_card)
           (replicate 52 plain_card) rev rev = Some (Returned () gs) \<and>
         (\<forall>p. length (deck_of p gs) = 86 \<and> length (wall (players gs p)) = 10 \<and>
              length (hand (players gs p)) = 10))"
  using is_shuffle_rev
    fresh_game_deck_sizes [of rev "replicate 52 plain_card" 0 "\<lambda>_. plain_card" rev rev
      "replicate 52 plain_card" "replicate 52 plain_card" "''Player1''" "''Player2''"]
  by (simp add: joker_card_fields plain_card_def Card_init_def)

section \<open>Score and winner\<close>







section \<open>Joker damage\<close>

lemma calculate_joker_damage_loop_frame:
  "players (state_of (calculate_joker_damage_loop cs t ins gs)) = players gs \<and>
   (\<forall>c. damage_points (cards (state_of (calculate_joker_damage_loop cs t ins gs)) c) =
        damage_points (cards gs c))"
  by (induction cs arbitrary: t ins gs)
     (auto simp: state_of_def split: option.splits bool.splits)

lemma calculate_joker_damage_loop_total:
  "calculate_joker_damage_loop cs t ins gs = Returned (t', rest) gs' \<Longrightarrow> t \<le> t'"
  by (induction cs arbitrary: t ins gs)
     (fastforce split: option.splits bool.splits)+

text \<open>
  C4 fails on the code. Whenever the opponent has a card in the field zone, the wall or
  the battlement zone, \<^verbatim>\<open>handle_joker_attack\<close> does not return (it raises) and no card's
  damage points have changed: the Joker's damage is never applied.
\<close>

theorem handle_joker_attack_raises:
  "field_zone (players gs (opponent (Some p))) \<noteq> [] \<or>
   wall (players gs (opponent (Some p))) \<noteq> [] \<or>
   battlement_zone (players gs (opponent (Some p))) \<noteq> [] \<longrightarrow>
     \<not> returned (handle_joker_attack p ins gs) \<and>
     (\<forall>c. damage_points (cards (state_of (handle_joker_attack p ins gs)) c) =
          damage_points (cards gs c))"
proof
  assume z: "field_zone (players gs (opponent (Some p))) \<noteq> [] \<or>
   wall (players gs (opponent (Some p))) \<noteq> [] \<or>
   battlement_zone (players gs (opponent (Some p))) \<noteq> []"
  show "\<not> returned (handle_joker_attack p ins gs) \<and>
     (\<forall>c. damage_points (cards (state_of (handle_joker_attack p ins gs)) c) =
          damage_points (cards gs c))"
  proof (cases "calculate_joker_damage p ins gs")
    case (Raised e gs1)
    with calculate_joker_damage_loop_frame [of "field_zone (players gs p)" 2 ins gs]
    show ?thesis
      by (simp add: handle_joker_attack_def calculate_joker_damage_def returned_def state_of_def)
  next
    case (Returned v gs1)
    obtain t rest where v: "v = (t, rest)" by (cases v)
    have t: "2 \<le> t"
      using Returned calculate_joker_damage_loop_total
      unfolding calculate_joker_damage_def v by blast
    have f: "players gs1 = players gs" "\<forall>c. damage_points (cards gs1 c) = damage_points (cards gs c)"
      using Returned calculate_joker_damage_loop_frame [of "field_zone (players gs p)" 2 ins gs]
      by (simp_all add: calculate_joker_damage_def state_of_def)
    have "handle_joker_attack p ins gs = Raised AttributeError gs1"
      using z t f(1) Returned
      by (auto simp: handle_joker_attack_def Let_def v assign_damage_to_zone_def)
    then show ?thesis
      using f(2) by (simp add: returned_def state_of_def)
  qed
qed

text \<open>
  In the example Player1 spends the action point of card 0 (total damage 3); the call
  raises AttributeError with that action point gone and Player2's card 1 undamaged.
\<close>

theorem handle_joker_attack_raises_witness:
  "field_zone (players joker_example (opponent (Some Player1))) = [1] \<and>
   handle_joker_attack Player1 [Text ''yes''] joker_example =
     Raised AttributeError
       (update_card 0 (\<lambda>k. k\<lparr>action_point := action_point k - 1\<rparr>) joker_example) \<and>
   damage_points (cards (state_of (handle_joker_attack Player1 [Text ''yes''] joker_example)) 1)
     = 1"
  using handle_joker_attack_raises [of joker_example Player1 "[Text ''yes'']"]
  by (simp add: handle_joker_attack_def calculate_joker_damage_def assign_damage_to_zone_def
      opponent_def state_of_def joker_example_def with_field_zone_def empty_game_def
      Player_init_def plain_card_def Card_init_def update_player_def update_card_def)

section \<open>Resolution order of the Action Sequence Pile\<close>

lemma resolutions_append: "resolutions (xs @ ys) = resolutions xs @ resolutions ys"
  by (induction xs rule: resolutions.induct) auto

lemma placements_append: "placements (xs @ ys) = placements xs @ placements ys"
  by (induction xs rule: placements.induct) auto

lemma state_of_simps [simp]:
  "state_of (Raised e s) = s" "state_of (Returned v s) = s"
  by (simp_all add: state_of_def)

lemma returned_simps [simp]:
  "returned (Raised e s) = False" "returned (Returned v s) = True"
  by (simp_all add: returned_def)

lemma resolve_asp_in_order:
  "resolve_asp f ins rm = resolve_in_order f (rev (asp rm)) ins rm"
proof (induction f ins rm rule: resolve_asp.induct)
  case (1 f ins rm)
  show ?case
  proof (cases "asp rm = []")
    case True
    then show ?thesis by (subst resolve_asp.simps) simp
  next
    case False
    then obtain xs p c where a: "asp rm = xs @ [(p, c)]"
      by (cases "asp rm" rule: rev_cases) auto
    show ?thesis
    proof (cases "resolve_asp_card f p c ins (game_state rm)")
      case (Raised e gs)
      then show ?thesis
        by (subst resolve_asp.simps) (simp add: a)
    next
      case (Returned rest gs)
      have "resolve_asp f rest (rm\<lparr>asp := xs, game_state := gs\<rparr>) =
            resolve_in_order f (rev xs) rest (rm\<lparr>asp := xs, game_state := gs\<rparr>)"
        using "1.IH" [OF False, of "(p, c)" p c "rm\<lparr>asp := xs\<rparr>" rest gs] Returned a
        by simp
      then show ?thesis
        using Returned by (subst resolve_asp.simps) (simp add: a)
    qed
  qed
qed

lemma resolve_in_order_empties:
  "returned (resolve_in_order f pcs ins rm) \<Longrightarrow>
   asp (state_of (resolve_in_order f pcs ins rm)) = (if pcs = [] then asp rm else [])"
proof (induction pcs arbitrary: ins rm)
  case Nil
  then show ?case by simp
next
  case (Cons pc pcs)
  obtain p c where pc: "pc = (p, c)" by (cases pc)
  show ?case
  proof (cases "resolve_asp_card f p c ins (game_state rm)")
    case (Raised e gs)
    with Cons.prems show ?thesis by (simp add: pc)
  next
    case (Returned rest gs)
    with Cons.prems Cons.IH [of rest "rm\<lparr>asp := rev pcs, game_state := gs\<rparr>"]
    show ?thesis by (simp add: pc)
  qed
qed

lemma resolve_asp_card_resolutions:
  assumes "silent_reveal f"
  shows "resolutions (stdout (state_of (resolve_asp_card f p c ins gs))) =
         resolutions (stdout gs) @ [(p, c)]"
proof -
  have r: "\<And>rest g. resolutions (stdout (state_of (f p c rest g))) = resolutions (stdout g)"
    using assms by (simp add: silent_reveal_def)
  show ?thesis
    by (auto simp: resolve_asp_card_def Let_def handle_trap_card_def r resolutions_append
        discard_card_def place_card_in_wall_def split: option.splits)
qed

lemma resolve_in_order_resolutions:
  "silent_reveal f \<Longrightarrow> returned (resolve_in_order f pcs ins rm) \<Longrightarrow>
   resolutions (stdout (game_state (state_of (resolve_in_order f pcs ins rm)))) =
     resolutions (stdout (game_state rm)) @ pcs"
proof (induction pcs arbitrary: ins rm)
  case Nil
  then show ?case by simp
next
  case (Cons pc pcs)
  obtain p c where pc: "pc = (p, c)" by (cases pc)
  show ?case
  proof (cases "resolve_asp_card f p c ins (game_state rm)")
    case (Raised e gs)
    with Cons.prems show ?thesis by (simp add: pc)
  next
    case (Returned rest gs)
    have "resolutions (stdout gs) = resolutions (stdout (game_state rm)) @ [(p, c)]"
      using resolve_asp_card_resolutions [OF Cons.prems(1), of p c ins "game_state rm"] Returned
      by simp
    with Cons.prems Returned
      Cons.IH [of rest "rm\<lparr>asp := rev pcs, game_state := gs\<rparr>"]
    show ?thesis by (simp add: pc)
  qed
qed

lemma choose_action_for_asp_stdout:
  "stdout (state_of (choose_action_for_asp p ins gs)) = stdout gs"
  by (induction p ins gs rule: choose_action_for_asp.induct) auto

lemma handle_asp_actions_loop_placements:
  "returned (handle_asp_actions_loop p ins rm) \<Longrightarrow>
   \<exists>evs. stdout (game_state (state_of (handle_asp_actions_loop p ins rm))) =
           stdout (game_state rm) @ evs \<and>
         asp (state_of (handle_asp_actions_loop p ins rm)) = asp rm @ placements evs \<and>
         resolutions evs = []"
proof (induction p ins rm rule: handle_asp_actions_loop.induct)
  case (1 p ins rm)
  show ?case
  proof (cases "choose_action_for_asp p ins (game_state rm)")
    case (Raised e gs)
    with "1.prems" show ?thesis
      by (subst (asm) handle_asp_actions_loop.simps) simp
  next
    case (Returned v gs)
    obtain a rest where v: "v = (a, rest)" by (cases v)
    have so: "stdout gs = stdout (game_state rm)"
      using choose_action_for_asp_stdout [of p ins "game_state rm"] Returned by simp
    show ?thesis
    proof (cases a)
      case (CardAction c)
      let ?rm = "rm\<lparr>asp := asp rm @ [(p, c)], game_state := print (PlacesToASP p c) gs\<rparr>"
      have eq: "handle_asp_actions_loop p ins rm = handle_asp_actions_loop (next_player p) rest ?rm"
        using Returned v CardAction by (subst handle_asp_actions_loop.simps) simp
      with "1.prems" have "returned (handle_asp_actions_loop (next_player p) rest ?rm)" by simp
      from "1.IH"(1) [OF Returned [unfolded v CardAction] refl refl this]
      obtain evs where
        "stdout (game_state (state_of (handle_asp_actions_loop (next_player p) rest ?rm))) =
           stdout (game_state ?rm) @ evs"
        "asp (state_of (handle_asp_actions_loop (next_player p) rest ?rm)) =
           asp ?rm @ placements evs"
        "resolutions evs = []"
        by blast
      then have
        "stdout (game_state (state_of (handle_asp_actions_loop p ins rm))) =
           stdout (game_state rm) @ (PlacesToASP p c # evs) \<and>
         asp (state_of (handle_asp_actions_loop p ins rm)) =
           asp rm @ placements (PlacesToASP p c # evs) \<and>
         resolutions (PlacesToASP p c # evs) = []"
        by (simp add: eq so)
      then show ?thesis by blast
    next
      case TokenAction
      have "handle_asp_actions_loop p ins rm =
            Returned rest (rm\<lparr>game_state := print (PlacesToken p) gs\<rparr>)"
        using Returned v TokenAction by (subst handle_asp_actions_loop.simps) simp
      then have
        "stdout (game_state (state_of (handle_asp_actions_loop p ins rm))) =
           stdout (game_state rm) @ [PlacesToken p] \<and>
         asp (state_of (handle_asp_actions_loop p ins rm)) = asp rm @ placements [PlacesToken p] \<and>
         resolutions [PlacesToken p] = []"
        by (simp add: so)
      then show ?thesis by blast
    next
      case StatsAction
      let ?rm = "rm\<lparr>game_state := gs\<rparr>"
      have eq: "handle_asp_actions_loop p ins rm = handle_asp_actions_loop (next_player p) rest ?rm"
        using Returned v StatsAction by (subst handle_asp_actions_loop.simps) simp
      with "1.prems" have "returned (handle_asp_actions_loop (next_player p) rest ?rm)" by simp
      from "1.IH"(2) [OF Returned [unfolded v StatsAction] refl refl this]
      show ?thesis
        by (simp add: eq so)
    qed
  qed
qed

text \<open>
  C3. \<^verbatim>\<open>resolve_asp\<close> resolves the pairs of the pile in exactly the reverse of the order
  in which they lie on it, and when it returns the pile is empty. Whatever a revealed card
  does (as long as it does not print resolution lines of its own), the resolution lines
  printed are the pile reversed. For \<^verbatim>\<open>handle_asp_actions\<close> as a whole: the pairs are
  appended to the pile in the order the players place them, they are resolved in the
  reverse of that order, and the pile is empty when the call returns.
\<close>

theorem asp_resolution_is_lifo:
  "resolve_asp f ins rm = resolve_in_order f (rev (asp rm)) ins rm \<and>
   (returned (resolve_asp f ins rm) \<longrightarrow> asp (state_of (resolve_asp f ins rm)) = []) \<and>
   (silent_reveal f \<and> returned (resolve_asp f ins rm) \<longrightarrow>
      resolutions (stdout (game_state (state_of (resolve_asp f ins rm)))) =
        resolutions (stdout (game_state rm)) @ rev (asp rm)) \<and>
   (silent_reveal f \<and> returned (handle_asp_actions f ins rm) \<longrightarrow>
      (\<exists>evs.
         stdout (game_state (state_of (handle_asp_actions_loop Player1 ins rm))) =
           stdout (game_state rm) @ evs \<and>
         asp (state_of (handle_asp_actions_loop Player1 ins rm)) = asp rm @ placements evs \<and>
         resolutions (stdout (game_state (state_of (handle_asp_actions f ins rm)))) =
           resolutions (stdout (game_state rm)) @ rev (asp rm @ placements evs)) \<and>
      asp (state_of (handle_asp_actions f ins rm)) = [])"
proof (intro conjI impI)
  show "resolve_asp f ins rm = resolve_in_order f (rev (asp rm)) ins rm"
    by (rule resolve_asp_in_order)
next
  assume "returned (resolve_asp f ins rm)"
  then show "asp (state_of (resolve_asp f ins rm)) = []"
    using resolve_in_order_empties [of f "rev (asp rm)" ins rm]
    by (simp add: resolve_asp_in_order)
next
  assume "silent_reveal f \<and> returned (resolve_asp f ins rm)"
  then show "resolutions (stdout (game_state (state_of (resolve_asp f ins rm)))) =
        resolutions (stdout (game_state rm)) @ rev (asp rm)"
    using resolve_in_order_resolutions [of f "rev (asp rm)" ins rm]
    by (simp add: resolve_asp_in_order)
next
  assume a: "silent_reveal f \<and> returned (handle_asp_actions f ins rm)"
  then obtain rest rm1 where l: "handle_asp_actions_loop Player1 ins rm = Returned rest rm1"
    by (cases "handle_asp_actions_loop Player1 ins rm") (simp_all add: handle_asp_actions_def)
  with a have h: "handle_asp_actions f ins rm = resolve_asp f rest rm1"
    and r: "returned (resolve_asp f rest rm1)"
    by (simp_all add: handle_asp_actions_def)
  from handle_asp_actions_loop_placements [of Player1 ins rm] l
  obtain evs where e: "stdout (game_state rm1) = stdout (game_state rm) @ evs"
    "asp rm1 = asp rm @ placements evs" "resolutions evs = []"
    by auto
  have "resolutions (stdout (game_state (state_of (resolve_asp f rest rm1)))) =
        resolutions (stdout (game_state rm1)) @ rev (asp rm1)"
    using resolve_in_order_resolutions [of f "rev (asp rm1)" rest rm1] a r
    by (simp add: resolve_asp_in_order)
  then have "stdout (game_state (state_of (handle_asp_actions_loop Player1 ins rm))) =
           stdout (game_state rm) @ evs \<and>
         asp (state_of (handle_asp_actions_loop Player1 ins rm)) = asp rm @ placements evs \<and>
         resolutions (stdout (game_state (state_of (handle_asp_actions f ins rm)))) =
           resolutions (stdout (game_state rm)) @ rev (asp rm @ placements evs)"
    using e by (simp add: l h resolutions_append)
  then show "\<exists>evs.
         stdout (game_state (state_of (handle_asp_actions_loop Player1 ins rm))) =
           stdout (game_state rm) @ evs \<and>
         asp (state_of (handle_asp_actions_loop Player1 ins rm)) = asp rm @ placements evs \<and>
         resolutions (stdout (game_state (state_of (handle_asp_actions f ins rm)))) =
           resolutions (stdout (game_state rm)) @ rev (asp rm @ placements evs)"
    by blast
next
  assume a: "silent_reveal f \<and> returned (handle_asp_actions f ins rm)"
  then obtain rest rm1 where l: "handle_asp_actions_loop Player1 ins rm = Returned rest rm1"
    by (cases "handle_asp_actions_loop Player1 ins rm") (simp_all add: handle_asp_actions_def)
  with a have h: "handle_asp_actions f ins rm = resolve_asp f rest rm1"
    and r: "returned (resolve_asp f rest rm1)"
    by (simp_all add: handle_asp_actions_def)
  show "asp (state_of (handle_asp_actions f ins rm)) = []"
    using resolve_in_order_empties [of f "rev (asp rm1)" rest rm1] r
    by (simp add: h resolve_asp_in_order)
qed

lemma silent_just_return: "silent_reveal just_return"
  by (simp add: silent_reveal_def just_return_def)

lemma asp_example_run:
  "returned (handle_asp_actions just_return asp_example_input asp_example)"
  "asp (state_of (handle_asp_actions_loop Player1 asp_example_input asp_example)) =
     [(Player1, 10), (Player2, 20), (Player1, 11)]"
  "resolutions (stdout (game_state (state_of
       (handle_asp_actions just_return asp_example_input asp_example)))) =
     [(Player1, 11), (Player2, 20), (Player1, 10)]"
  "asp (state_of (handle_asp_actions just_return asp_example_input asp_example)) = []"
  "wall (players (game_state (state_of
       (handle_asp_actions just_return asp_example_input asp_example))) Player1) = [11, 10]"
  by (simp_all add: handle_asp_actions_def handle_asp_actions_loop.simps resolve_asp.simps
      resolve_asp_card_def place_card_in_wall_def is_trap_def
      asp_example_def asp_example_input_def just_return_def
      next_player_def with_hand_def empty_game_def Player_init_def plain_card_def Card_init_def)

text \<open>
  Placing (Player1, 10), (Player2, 20), (Player1, 11) resolves (Player1, 11), (Player2, 20),
  (Player1, 10).
\<close>

theorem asp_resolution_is_lifo_witness:
  "silent_reveal just_return \<and>
   returned (handle_asp_actions just_return asp_example_input asp_example) \<and>
   asp (state_of (handle_asp_actions_loop Player1 asp_example_input asp_example)) =
     [(Player1, 10), (Player2, 20), (Player1, 11)] \<and>
   resolutions (stdout (game_state (state_of
       (handle_asp_actions just_return asp_example_input asp_example)))) =
     [(Player1, 11), (Player2, 20), (Player1, 10)] \<and>
   asp (state_of (handle_asp_actions just_return asp_example_input asp_example)) = [] \<and>
   wall (players (game_state (state_of
       (handle_asp_actions just_return asp_example_input asp_example))) Player1) = [11, 10]"
  using asp_resolution_is_lifo [of just_return asp_example_input asp_example]
    silent_just_return
  by (simp add: asp_example_run)

end
